theory Spec2Isabelle
  imports Main
begin

text \<open>
  A model of \<^verbatim>\<open>src/r-docs-integration.ts\<close>: the argument validator
  \<^verbatim>\<open>isRDocArgs\<close> and the class \<^verbatim>\<open>RDocsHandler\<close> with its parser
  \<^verbatim>\<open>parseRDoc\<close> and its two entry points \<^verbatim>\<open>describeRPackage\<close> and
  \<^verbatim>\<open>getRPackageDoc\<close>, followed by what is proved about them.
\<close>

section \<open>JavaScript strings\<close>

text \<open>
  A JavaScript string is a finite sequence of UTF-16 code units. A code unit is modelled
  by its number (\<open>0 .. 65535\<close>, as an integer), a string by the list of its code units, so that
  \<open>split\<close>, \<open>trim\<close>, \<open>includes\<close> and the regular expressions of
  \<^verbatim>\<open>r-docs-integration.ts\<close> see exactly the units the program sees. The
  literals of the source are ASCII and are written \<open>js ''...''\<close>; the quote
  characters and the backslash are given by their code.
\<close>

type_synonym jsstring = "int list"

abbreviation js :: "string \<Rightarrow> jsstring" where
  "js s \<equiv> map of_char s"

definition LF :: int where "LF = 0x0A"
definition COLON :: int where "COLON = 0x3A"
definition UNDERSCORE :: int where "UNDERSCORE = 0x5F"
definition DQUOTE :: int where "DQUOTE = 0x22"
definition SQUOTE :: int where "SQUOTE = 0x27"
definition BACKSLASH :: int where "BACKSLASH = 0x5C"

text \<open>
  The values that are falsy in a condition such as \<^verbatim>\<open>symbol ? a : b\<close> or
  \<^verbatim>\<open>if (result.usage)\<close>: \<^verbatim>\<open>undefined\<close> and the empty string.
\<close>

definition truthy :: "jsstring option \<Rightarrow> bool" where
  "truthy v = (case v of None \<Rightarrow> False | Some s \<Rightarrow> s \<noteq> [])"

text \<open>
  \<^verbatim>\<open>LineTerminator\<close> and \<^verbatim>\<open>WhiteSpace\<close> of ECMAScript: the code
  points \<^verbatim>\<open>String.prototype.trim\<close> strips, the first also those the regular
  expression atom \<^verbatim>\<open>.\<close> does not match.
\<close>

definition is_line_terminator :: "int \<Rightarrow> bool" where
  "is_line_terminator c = (c = 0x0A \<or> c = 0x0D \<or> c = 0x2028 \<or> c = 0x2029)"

definition is_white_space :: "int \<Rightarrow> bool" where
  "is_white_space c =
     (c = 0x09 \<or> c = 0x0B \<or> c = 0x0C \<or> c = 0x20 \<or> c = 0xA0 \<or> c = 0x1680 \<or>
      (0x2000 \<le> c \<and> c \<le> 0x200A) \<or> c = 0x202F \<or> c = 0x205F \<or> c = 0x3000 \<or>
      c = 0xFEFF)"

definition is_trimmed :: "int \<Rightarrow> bool" where
  "is_trimmed c = (is_white_space c \<or> is_line_terminator c)"

definition trim :: "jsstring \<Rightarrow> jsstring" where
  "trim s = rev (dropWhile is_trimmed (rev (dropWhile is_trimmed s)))"

fun starts_with :: "jsstring \<Rightarrow> jsstring \<Rightarrow> bool" where
  "starts_with s [] = True"
| "starts_with [] (p # ps) = False"
| "starts_with (c # cs) (p # ps) = (c = p \<and> starts_with cs ps)"

text \<open>\<^verbatim>\<open>s.includes(t)\<close>: \<open>t\<close> occurs in \<open>s\<close> at some position.\<close>

fun js_includes :: "jsstring \<Rightarrow> jsstring \<Rightarrow> bool" where
  "js_includes [] t = (t = [])"
| "js_includes (c # cs) t = (starts_with (c # cs) t \<or> js_includes cs t)"

text \<open>
  \<^verbatim>\<open>s.split('\n')\<close>: the pieces between the line feeds; never the empty
  array (the empty string gives one empty piece), so the head and the tail taken of the
  recursive result exist (\<open>split_lines_nonempty\<close> below).
\<close>

fun split_lines :: "jsstring \<Rightarrow> jsstring list" where
  "split_lines [] = [[]]"
| "split_lines (c # cs) =
     (let r = split_lines cs
      in if c = LF then [] # r else (c # hd r) # tl r)"

text \<open>\<^verbatim>\<open>a.join('\n')\<close>.\<close>

fun join_lines :: "jsstring list \<Rightarrow> jsstring" where
  "join_lines [] = []"
| "join_lines [l] = l"
| "join_lines (l # m # ls) = l @ [LF] @ join_lines (m # ls)"

text \<open>
  \<^verbatim>\<open>String.prototype.toLowerCase\<close>, one code unit at a time. The program
  only compares the lowered section name with ASCII literals, so what matters is which
  units lower to ASCII: the letters \<open>A\<close> to \<open>Z\<close>, the Kelvin sign (U+212A, to
  \<open>k\<close>) and the dotted capital I (U+0130, to \<open>i\<close> followed by U+0307). Every
  other unit outside ASCII lowers to units outside ASCII and is kept as it is here.
\<close>

definition is_upper :: "int \<Rightarrow> bool" where
  "is_upper c = (0x41 \<le> c \<and> c \<le> 0x5A)"

definition is_lower :: "int \<Rightarrow> bool" where
  "is_lower c = (0x61 \<le> c \<and> c \<le> 0x7A)"

definition lower_unit :: "int \<Rightarrow> jsstring" where
  "lower_unit c =
     (if is_upper c then [c + 0x20]
      else if c = 0x212A then [0x6B]
      else if c = 0x0130 then [0x69, 0x0307]
      else [c])"

definition toLowerCase :: "jsstring \<Rightarrow> jsstring" where
  "toLowerCase s = concat (map lower_unit s)"

section \<open>The regular expressions of the section scanner\<close>

text \<open>
  \<^verbatim>\<open>[A-Za-z_]\<close>, the class of the emphasised header.
\<close>

definition is_name_unit :: "int \<Rightarrow> bool" where
  "is_name_unit c = (is_upper c \<or> is_lower c \<or> c = UNDERSCORE)"

text \<open>
  What \<^verbatim>\<open>.*\<close> leaves of the text it is applied to: it takes every unit up to
  the first line terminator.
\<close>

definition after_dot_star :: "jsstring \<Rightarrow> jsstring" where
  "after_dot_star s = dropWhile (\<lambda>c. \<not> is_line_terminator c) s"

text \<open>
  \<^verbatim>\<open>/^_([A-Za-z_]+):/\<close> at the start of a line: the group and the text behind
  the colon on a match. The colon is not in the class, so the only way to match is the
  longest run of class units followed by a colon; backtracking finds nothing else.
\<close>

definition emph_header :: "jsstring \<Rightarrow> (jsstring \<times> jsstring) option" where
  "emph_header line =
     (case line of
        [] \<Rightarrow> None
      | c # cs \<Rightarrow>
          if c = UNDERSCORE then
            (case dropWhile is_name_unit cs of
               [] \<Rightarrow> None
             | d # rest \<Rightarrow>
                 if takeWhile is_name_unit cs \<noteq> [] \<and> d = COLON
                 then Some (takeWhile is_name_unit cs, rest) else None)
          else None)"

text \<open>\<^verbatim>\<open>/^([A-Z][a-z]+):/\<close>, in the same way.\<close>

definition plain_header :: "jsstring \<Rightarrow> (jsstring \<times> jsstring) option" where
  "plain_header line =
     (case line of
        [] \<Rightarrow> None
      | c # cs \<Rightarrow>
          if is_upper c then
            (case dropWhile is_lower cs of
               [] \<Rightarrow> None
             | d # rest \<Rightarrow>
                 if takeWhile is_lower cs \<noteq> [] \<and> d = COLON
                 then Some (c # takeWhile is_lower cs, rest) else None)
          else None)"

text \<open>
  The test of the loop:
  \<^verbatim>\<open>line.match(/^_[A-Za-z_]+:/) || line.match(/^[A-Z][a-z]+:/)\<close>.
\<close>

definition is_header :: "jsstring \<Rightarrow> bool" where
  "is_header line = (emph_header line \<noteq> None \<or> plain_header line \<noteq> None)"

text \<open>
  The three replacements that turn a header line into the section name:
  \<^verbatim>\<open>line.replace(/^_([A-Za-z_]+):.*/, '$1').replace(/_/g, '').replace(/^([A-Z][a-z]+):.*/, '$1')\<close>.
  A replacement whose pattern does not match returns its input; one that matches puts
  the group in place of the match and keeps what \<^verbatim>\<open>.*\<close> did not reach.
\<close>

definition replace_emph :: "jsstring \<Rightarrow> jsstring" where
  "replace_emph s =
     (case emph_header s of None \<Rightarrow> s | Some (g, rest) \<Rightarrow> g @ after_dot_star rest)"

definition remove_underscores :: "jsstring \<Rightarrow> jsstring" where
  "remove_underscores s = filter (\<lambda>c. c \<noteq> UNDERSCORE) s"

definition replace_plain :: "jsstring \<Rightarrow> jsstring" where
  "replace_plain s =
     (case plain_header s of None \<Rightarrow> s | Some (g, rest) \<Rightarrow> g @ after_dot_star rest)"

definition section_name :: "jsstring \<Rightarrow> jsstring" where
  "section_name line = replace_plain (remove_underscores (replace_emph line))"

section \<open>The result object\<close>

text \<open>
  \<^verbatim>\<open>DocResult\<close>: every field is optional. The search fields are declared by
  the source and never written by the functions modelled here; the fields of the two
  search records whose names occur in another record as well carry a prefix.
\<close>

record SearchResult =
  sr_symbol :: "jsstring option"
  sr_match :: jsstring
  sr_context :: "jsstring option"
  sr_score :: int
  sr_type :: "jsstring option"

record SearchResults =
  results :: "SearchResult list"
  totalResults :: int
  srs_error :: "jsstring option"
  srs_suggestInstall :: "bool option"

record DocResult =
  description :: "jsstring option"
  usage :: "jsstring option"
  example :: "jsstring option"
  error :: "jsstring option"
  searchResults :: "SearchResults option"
  suggestInstall :: "bool option"

text \<open>The object literal \<^verbatim>\<open>{}\<close>.\<close>

definition no_fields :: DocResult where
  "no_fields =
     \<lparr>description = None, usage = None, example = None, error = None,
      searchResults = None, suggestInstall = None\<rparr>"

text \<open>
  What a function of the program can throw: an instance of \<^verbatim>\<open>Error\<close> with its
  message, or another value, kept as the string \<^verbatim>\<open>String(error)\<close> gives.
\<close>

datatype js_exn = ErrorObject jsstring | ThrownValue jsstring

section \<open>addSectionToResult\<close>

text \<open>
  The two branches shared by the sections that go under a sub-heading of the usage
  text: \<^verbatim>\<open>result.usage += '\n\n## H\n\n' + content\<close> when
  \<^verbatim>\<open>result.usage\<close> is truthy, \<^verbatim>\<open>result.usage = '## H\n\n' + content\<close>
  otherwise.
\<close>

definition under_heading :: "DocResult \<Rightarrow> jsstring \<Rightarrow> jsstring \<Rightarrow> DocResult" where
  "under_heading result heading content =
     (if truthy (usage result)
      then result\<lparr>usage :=
             Some (the (usage result) @ [LF, LF] @ js ''## '' @ heading @ [LF, LF] @ content)\<rparr>
      else result\<lparr>usage := Some (js ''## '' @ heading @ [LF, LF] @ content)\<rparr>)"

definition addSectionToResult :: "DocResult \<Rightarrow> jsstring \<Rightarrow> jsstring \<Rightarrow> DocResult" where
  "addSectionToResult result section content =
     (let name = toLowerCase section
      in if name = js ''description'' then result\<lparr>description := Some content\<rparr>
         else if name = js ''usage'' then result\<lparr>usage := Some content\<rparr>
         else if name = js ''arguments'' then under_heading result (js ''Arguments'') content
         else if name = js ''value'' then under_heading result (js ''Return Value'') content
         else if name = js ''details'' then under_heading result (js ''Details'') content
         else if name = js ''examples'' then result\<lparr>example := Some content\<rparr>
         else if name = js ''references'' \<or> name = js ''seealso'' \<or> name = js ''author''
                 \<or> name = js ''note''
              then under_heading result section content
         else result)"

section \<open>parseRDoc\<close>

text \<open>
  The state of the scanning loop is the result object, \<^verbatim>\<open>currentSection\<close>
  and \<^verbatim>\<open>sectionContent\<close>. The guarded call
  \<^verbatim>\<open>if (currentSection && sectionContent.length > 0) this.addSectionToResult(...)\<close>
  occurs twice in the source, at a header and behind the loop.
\<close>

definition save_section :: "DocResult \<Rightarrow> jsstring \<Rightarrow> jsstring list \<Rightarrow> DocResult" where
  "save_section result currentSection sectionContent =
     (if currentSection \<noteq> [] \<and> sectionContent \<noteq> []
      then addSectionToResult result currentSection (join_lines sectionContent)
      else result)"

fun scan_lines ::
  "jsstring list \<Rightarrow> DocResult \<Rightarrow> jsstring \<Rightarrow> jsstring list
     \<Rightarrow> DocResult \<times> jsstring \<times> jsstring list" where
  "scan_lines [] result currentSection sectionContent =
     (result, currentSection, sectionContent)"
| "scan_lines (line # rest) result currentSection sectionContent =
     (if is_header line
      then scan_lines rest (save_section result currentSection sectionContent)
             (section_name line) []
      else scan_lines rest result currentSection (sectionContent @ [line]))"

text \<open>The loop over the lines handed to it, and the saving of the last section.\<close>

definition fold_sections :: "jsstring list \<Rightarrow> DocResult \<Rightarrow> DocResult" where
  "fold_sections ls result =
     (case scan_lines ls result [] [] of
        (result', currentSection, sectionContent) \<Rightarrow>
          save_section result' currentSection sectionContent)"

text \<open>
  \<^verbatim>\<open>lines[i]\<close> is \<^verbatim>\<open>undefined\<close> outside the array, and calling
  \<^verbatim>\<open>trim\<close> on \<^verbatim>\<open>undefined\<close> throws a \<^verbatim>\<open>TypeError\<close>.
\<close>

definition line_at :: "jsstring list \<Rightarrow> nat \<Rightarrow> jsstring option" where
  "line_at ls i = (if i < length ls then Some (ls ! i) else None)"

definition trim_of :: "jsstring option \<Rightarrow> js_exn + jsstring" where
  "trim_of v =
     (case v of
        None \<Rightarrow> Inl (ErrorObject (js ''Cannot read properties of undefined''))
      | Some s \<Rightarrow> Inr (trim s))"

text \<open>The first test of \<^verbatim>\<open>parseRDoc\<close>: the text holds no documentation.\<close>

definition not_found :: "jsstring \<Rightarrow> bool" where
  "not_found doc =
     (doc = [] \<or> js_includes doc (js ''Documentation not found'') \<or> trim doc = [])"

definition not_found_message :: "jsstring \<Rightarrow> jsstring option \<Rightarrow> jsstring" where
  "not_found_message packageName symbol =
     js ''Documentation not found for '' @
     (if truthy symbol then packageName @ js ''::'' @ the symbol
      else js ''package '' @ packageName)"

text \<open>The title: \<^verbatim>\<open>if (lines.length > 2) result.description = lines[2].trim()\<close>.\<close>

definition with_title :: "jsstring list \<Rightarrow> js_exn + DocResult" where
  "with_title ls =
     (if length ls > 2
      then (case trim_of (line_at ls 2) of
              Inl e \<Rightarrow> Inl e
            | Inr t \<Rightarrow> Inr (no_fields\<lparr>description := Some t\<rparr>))
      else Inr no_fields)"

definition parseRDoc :: "jsstring \<Rightarrow> jsstring \<Rightarrow> jsstring option \<Rightarrow> js_exn + DocResult" where
  "parseRDoc doc packageName symbol =
     (if not_found doc
      then Inr (no_fields\<lparr>error := Some (not_found_message packageName symbol)\<rparr>)
      else
        (case with_title (split_lines doc) of
           Inl e \<Rightarrow> Inl e
         | Inr result0 \<Rightarrow>
             (let result = fold_sections (drop 3 (split_lines doc)) result0
              in Inr (if \<not> truthy (usage result) \<and> \<not> truthy symbol
                      then result\<lparr>usage := Some doc\<rparr>
                      else result))))"

section \<open>The argument validator\<close>

text \<open>
  \<^verbatim>\<open>isRDocArgs\<close> receives a value of type \<^verbatim>\<open>unknown\<close>. A value is
  modelled as far as the validator looks at it: its \<^verbatim>\<open>typeof\<close> and, for an
  object, its properties (an array is an object whose keys are its indices). The payload
  of a number plays no part.
\<close>

datatype jsval =
    JUndefined
  | JNull
  | JBoolean bool
  | JNumber int
  | JString jsstring
  | JFunction
  | JObject "(jsstring \<times> jsval) list"

fun typeof :: "jsval \<Rightarrow> string" where
  "typeof JUndefined = ''undefined''"
| "typeof JNull = ''object''"
| "typeof (JBoolean b) = ''boolean''"
| "typeof (JNumber n) = ''number''"
| "typeof (JString s) = ''string''"
| "typeof JFunction = ''function''"
| "typeof (JObject ps) = ''object''"

text \<open>
  Reading a property: the value stored under the key (each key is listed once),
  \<^verbatim>\<open>undefined\<close> when there is none. The validator reads properties of a
  non-null object only: the chain of \<^verbatim>\<open>&&\<close> ends before the first read
  otherwise.
\<close>

fun property :: "jsval \<Rightarrow> string \<Rightarrow> jsval" where
  "property (JObject ps) k = (case map_of ps (js k) of None \<Rightarrow> JUndefined | Some v \<Rightarrow> v)"
| "property v k = JUndefined"

definition isRDocArgs :: "jsval \<Rightarrow> bool" where
  "isRDocArgs args =
     (typeof args = ''object'' \<and>
      args \<noteq> JNull \<and>
      typeof (property args ''package'') = ''string'' \<and>
      (typeof (property args ''symbol'') = ''string'' \<or>
         property args ''symbol'' = JUndefined) \<and>
      (typeof (property args ''projectPath'') = ''string'' \<or>
         property args ''projectPath'' = JUndefined))"

record RDocArgs =
  package :: jsstring
  symbol :: "jsstring option"
  projectPath :: "jsstring option"

section \<open>Running commands\<close>

text \<open>
  The handler reaches the outside through \<^verbatim>\<open>execAsync\<close> only. The outside
  is a parameter: a \<open>shell\<close> tells, for the commands run so far and the command run
  now, whether the promise is rejected (with what) or fulfilled (with which standard
  output). The world records the commands in the order they were run, and what was
  logged.
\<close>

datatype log_entry = LogInfo jsstring | LogError jsstring js_exn

record world =
  history :: "jsstring list"
  logged :: "log_entry list"

type_synonym shell = "jsstring list \<Rightarrow> jsstring \<Rightarrow> js_exn + jsstring"

type_synonym 'a promise = "world \<Rightarrow> (js_exn + 'a) \<times> world"

definition resolve :: "'a \<Rightarrow> 'a promise" where
  "resolve x w = (Inr x, w)"

text \<open>A synchronous call inside an \<^verbatim>\<open>async\<close> function: its throw rejects.\<close>

definition settle :: "js_exn + 'a \<Rightarrow> 'a promise" where
  "settle r w = (r, w)"

text \<open>\<^verbatim>\<open>const x = await m; ...\<close>\<close>

definition await :: "'a promise \<Rightarrow> ('a \<Rightarrow> 'b promise) \<Rightarrow> 'b promise" where
  "await m f w = (case m w of (Inl e, w') \<Rightarrow> (Inl e, w') | (Inr x, w') \<Rightarrow> f x w')"

text \<open>\<^verbatim>\<open>try { m } catch (error) { h }\<close>\<close>

definition try_catch :: "'a promise \<Rightarrow> (js_exn \<Rightarrow> 'a promise) \<Rightarrow> 'a promise" where
  "try_catch m h w = (case m w of (Inl e, w') \<Rightarrow> h e w' | (Inr x, w') \<Rightarrow> (Inr x, w'))"

definition execAsync :: "shell \<Rightarrow> jsstring \<Rightarrow> jsstring promise" where
  "execAsync sh command w = (sh (history w) command, w\<lparr>history := history w @ [command]\<rparr>)"

text \<open>
  Modelled from the spec: the module \<^verbatim>\<open>./logger.js\<close> is not among the
  sources. The spec has a failure "caught, logged, and ignored" and nothing "fatal to the
  process", so a call of the logger appends to the log and never throws.
\<close>

definition logger_info :: "jsstring \<Rightarrow> unit promise" where
  "logger_info msg w = (Inr (), w\<lparr>logged := logged w @ [LogInfo msg]\<rparr>)"

definition logger_error :: "jsstring \<Rightarrow> js_exn \<Rightarrow> unit promise" where
  "logger_error msg e w = (Inr (), w\<lparr>logged := logged w @ [LogError msg e]\<rparr>)"

text \<open>\<^verbatim>\<open>error instanceof Error ? error.message : String(error)\<close>\<close>

fun errorMessage :: "js_exn \<Rightarrow> jsstring" where
  "errorMessage (ErrorObject m) = m"
| "errorMessage (ThrownValue s) = s"

section \<open>The commands\<close>

definition which_command :: jsstring where
  "which_command = js ''which Rscript''"

definition installed_command :: "jsstring \<Rightarrow> jsstring" where
  "installed_command packageName =
     js ''Rscript -e '' @ [DQUOTE] @ js ''cat(requireNamespace('' @ [SQUOTE] @ packageName @
     [SQUOTE] @ js '', quietly = TRUE))'' @ [DQUOTE]"

definition help_symbol_command :: "jsstring \<Rightarrow> jsstring \<Rightarrow> jsstring" where
  "help_symbol_command name packageName =
     js ''Rscript -e '' @ [DQUOTE] @ js ''help('' @ [SQUOTE] @ name @ [SQUOTE] @
     js '', package='' @ [SQUOTE] @ packageName @ [SQUOTE] @ js '')'' @ [DQUOTE]"

definition help_package_command :: "jsstring \<Rightarrow> jsstring" where
  "help_package_command packageName =
     js ''Rscript -e '' @ [DQUOTE] @ js ''help(package='' @ [SQUOTE] @ packageName @ [SQUOTE] @
     js '')'' @ [DQUOTE]"

definition examples_command :: "jsstring \<Rightarrow> jsstring \<Rightarrow> jsstring" where
  "examples_command name packageName =
     js ''Rscript -e '' @ [DQUOTE] @ js ''example('' @ [SQUOTE] @ name @ [SQUOTE] @
     js '', package='' @ [SQUOTE] @ packageName @ [SQUOTE] @
     js '', ask=FALSE, echo=TRUE)'' @ [DQUOTE]"

text \<open>One \<^verbatim>\<open>cat('Label: ', info\$Label, '\n'); \<close> of the description command.\<close>

definition cat_field :: "string \<Rightarrow> jsstring" where
  "cat_field label =
     js ''cat('' @ [SQUOTE] @ js label @ js '': '' @ [SQUOTE] @ js '', info'' @ [BACKSLASH] @
     js ''$'' @ js label @ js '', '' @ [SQUOTE, BACKSLASH] @ js ''n'' @ [SQUOTE] @ js '')''"

definition description_command :: "jsstring \<Rightarrow> jsstring" where
  "description_command packageName =
     js ''Rscript -e '' @ [DQUOTE] @ js ''info <- packageDescription('' @ [SQUOTE] @
     packageName @ [SQUOTE] @ js ''); '' @ cat_field ''Package'' @ js ''; '' @
     cat_field ''Version'' @ js ''; '' @ cat_field ''Title'' @ js ''; '' @
     cat_field ''Description'' @ [DQUOTE]"

definition functions_command :: "jsstring \<Rightarrow> jsstring" where
  "functions_command packageName =
     js ''Rscript -e '' @ [DQUOTE] @ js ''library('' @ [SQUOTE] @ packageName @ [SQUOTE] @
     js ''); funcs <- ls('' @ [SQUOTE] @ js ''package:'' @ packageName @ [SQUOTE] @
     js ''); cat('' @ [SQUOTE] @ js ''Functions exported by '' @ packageName @ js '':'' @
     [BACKSLASH] @ js ''n'' @ [SQUOTE] @ js ''); cat(paste('' @ [SQUOTE] @ js ''-'' @ [SQUOTE] @
     js '', funcs), sep='' @ [SQUOTE, BACKSLASH] @ js ''n'' @ [SQUOTE] @ js '')'' @ [DQUOTE]"

section \<open>The handler\<close>

definition isRInstalled :: "shell \<Rightarrow> bool promise" where
  "isRInstalled sh =
     try_catch (await (execAsync sh which_command) (\<lambda>out. resolve True))
       (\<lambda>error. resolve False)"

definition isRPackageInstalled :: "shell \<Rightarrow> jsstring \<Rightarrow> bool promise" where
  "isRPackageInstalled sh packageName =
     try_catch
       (await (execAsync sh (installed_command packageName))
          (\<lambda>stdout. resolve (trim stdout = js ''TRUE'')))
       (\<lambda>error. resolve False)"

definition r_missing :: DocResult where
  "r_missing =
     no_fields\<lparr>error := Some
       (js ''R is not installed or not in the PATH. Please install R and make sure it'' @
        [SQUOTE] @ js ''s available in your PATH.'')\<rparr>"

definition package_missing :: "jsstring \<Rightarrow> DocResult" where
  "package_missing packageName =
     no_fields\<lparr>error := Some
       (js ''Package '' @ packageName @ js '' is not installed. Try installing it with '' @
        [SQUOTE] @ js ''install.packages('' @ [DQUOTE] @ packageName @ [DQUOTE] @ js '')'' @
        [SQUOTE] @ js '' in R.''),
       suggestInstall := Some True\<rparr>"

definition fetch_failed :: "js_exn \<Rightarrow> DocResult" where
  "fetch_failed e =
     no_fields\<lparr>error := Some (js ''Failed to fetch R documentation: '' @ errorMessage e)\<rparr>"

text \<open>\<^verbatim>\<open>${packageName}${symbol ? `::${symbol}` : ""}\<close>\<close>

definition display_name :: "jsstring \<Rightarrow> jsstring option \<Rightarrow> jsstring" where
  "display_name packageName name =
     packageName @ (if truthy name then js ''::'' @ the name else [])"

definition describeRPackage :: "shell \<Rightarrow> RDocArgs \<Rightarrow> DocResult promise" where
  "describeRPackage sh args =
     await (logger_info (js ''Getting R documentation for '' @
              display_name (package args) (symbol args)))
       (\<lambda>u.
     try_catch
       (await (isRInstalled sh) (\<lambda>isRInstalled.
          if \<not> isRInstalled then resolve r_missing
          else
            await (isRPackageInstalled sh (package args)) (\<lambda>isPackageInstalled.
              if \<not> isPackageInstalled then resolve (package_missing (package args))
              else
                await (execAsync sh
                         (if truthy (symbol args)
                          then help_symbol_command (the (symbol args)) (package args)
                          else help_package_command (package args)))
                  (\<lambda>stdout. settle (parseRDoc stdout (package args) (symbol args))))))
       (\<lambda>error.
          await (logger_error (js ''Error getting R documentation for '' @ package args @
                   js '':'') error)
            (\<lambda>u. resolve (fetch_failed error))))"

text \<open>
  The inner \<^verbatim>\<open>try\<close> of \<^verbatim>\<open>getRPackageDoc\<close>: the examples are fetched
  and, when there are some, stored in the result; a failure is logged and the result
  stays as it was.
\<close>

definition add_examples :: "shell \<Rightarrow> jsstring \<Rightarrow> jsstring \<Rightarrow> DocResult \<Rightarrow> DocResult promise" where
  "add_examples sh packageName name result =
     try_catch
       (await (execAsync sh (examples_command name packageName)) (\<lambda>examplesOutput.
          resolve (if examplesOutput \<noteq> [] \<and> trim examplesOutput \<noteq> []
                   then result\<lparr>example := Some examplesOutput\<rparr>
                   else result)))
       (\<lambda>exError.
          await (logger_info (js ''No examples found for '' @ packageName @ js ''::'' @ name))
            (\<lambda>u. resolve result))"

definition overview_usage :: "jsstring \<Rightarrow> jsstring \<Rightarrow> jsstring" where
  "overview_usage overviewOutput functionsOutput =
     js ''# Package Overview'' @ [LF, LF] @ overviewOutput @ [LF, LF] @
     js ''# Exported Functions'' @ [LF, LF] @ functionsOutput"

definition getRPackageDoc :: "shell \<Rightarrow> RDocArgs \<Rightarrow> DocResult promise" where
  "getRPackageDoc sh args =
     await (logger_info (js ''Getting full R documentation for '' @
              display_name (package args) (symbol args)))
       (\<lambda>u.
     try_catch
       (await (isRInstalled sh) (\<lambda>isRInstalled.
          if \<not> isRInstalled then resolve r_missing
          else
            await (isRPackageInstalled sh (package args)) (\<lambda>isPackageInstalled.
              if \<not> isPackageInstalled then resolve (package_missing (package args))
              else if truthy (symbol args) then
                await (execAsync sh
                         (help_symbol_command (the (symbol args)) (package args)))
                  (\<lambda>helpOutput.
                await (settle (parseRDoc helpOutput (package args) (symbol args)))
                  (\<lambda>result.
                add_examples sh (package args) (the (symbol args)) result))
              else
                await (execAsync sh (help_package_command (package args)))
                  (\<lambda>overviewOutput.
                await (execAsync sh (description_command (package args)))
                  (\<lambda>descOutput.
                await (execAsync sh (functions_command (package args)))
                  (\<lambda>functionsOutput.
                resolve (no_fields\<lparr>description := Some descOutput,
                           usage := Some (overview_usage overviewOutput functionsOutput)\<rparr>)))))))
       (\<lambda>error.
          await (logger_error (js ''Error getting full R documentation for '' @ package args @
                   js '':'') error)
            (\<lambda>u. resolve (fetch_failed error))))"

section \<open>The sections a text gives\<close>

text \<open>
  A second view of the scanning loop, for stating what it does: the list of the
  (name, content) pairs that the loop and the statement behind it hand to
  \<^verbatim>\<open>addSectionToResult\<close>, in that order. It follows the loop branch by branch;
  \<open>fold_sections_saved\<close> below proves that folding \<^verbatim>\<open>addSectionToResult\<close>
  over this list is what the loop computes.
\<close>

definition saved :: "jsstring \<Rightarrow> jsstring list \<Rightarrow> (jsstring \<times> jsstring) list" where
  "saved currentSection sectionContent =
     (if currentSection \<noteq> [] \<and> sectionContent \<noteq> []
      then [(currentSection, join_lines sectionContent)] else [])"

fun saved_sections ::
  "jsstring list \<Rightarrow> jsstring \<Rightarrow> jsstring list \<Rightarrow> (jsstring \<times> jsstring) list" where
  "saved_sections [] currentSection sectionContent = saved currentSection sectionContent"
| "saved_sections (line # rest) currentSection sectionContent =
     (if is_header line
      then saved currentSection sectionContent @ saved_sections rest (section_name line) []
      else saved_sections rest currentSection (sectionContent @ [line]))"

definition sections_of :: "jsstring \<Rightarrow> (jsstring \<times> jsstring) list" where
  "sections_of doc = saved_sections (drop 3 (split_lines doc)) [] []"

definition add_sections :: "DocResult \<Rightarrow> (jsstring \<times> jsstring) list \<Rightarrow> DocResult" where
  "add_sections result secs = foldl (\<lambda>r (n, c). addSectionToResult r n c) result secs"

text \<open>
  The same list read off the lines: a block is a header line with the lines that follow it
  up to the next header. \<open>sections_of_blocks\<close> below proves that the saved sections
  are the blocks whose name and whose lines are both not empty, each with its name and its
  lines joined.
\<close>

function blocks :: "jsstring list \<Rightarrow> (jsstring \<times> jsstring list) list" where
  "blocks [] = []"
| "blocks (l # ls) =
     (if is_header l
      then (l, takeWhile (\<lambda>x. \<not> is_header x) ls) #
           blocks (dropWhile (\<lambda>x. \<not> is_header x) ls)
      else blocks ls)"
  by pat_completeness auto
termination
  by (relation "measure length") (auto simp: length_dropWhile_le less_Suc_eq_le)

text \<open>
  The section names whose case of \<^verbatim>\<open>addSectionToResult\<close> writes
  \<^verbatim>\<open>result.usage\<close>.
\<close>

definition goes_to_usage :: "jsstring \<Rightarrow> bool" where
  "goes_to_usage section =
     (toLowerCase section = js ''usage'' \<or> toLowerCase section = js ''arguments'' \<or>
      toLowerCase section = js ''value'' \<or> toLowerCase section = js ''details'' \<or>
      toLowerCase section = js ''references'' \<or> toLowerCase section = js ''seealso'' \<or>
      toLowerCase section = js ''author'' \<or> toLowerCase section = js ''note'')"

section \<open>Example texts\<close>

text \<open>Help for a function, in the layout the comment in \<^verbatim>\<open>parseRDoc\<close> shows.\<close>

definition mean_help :: jsstring where
  "mean_help = join_lines
     [js ''mean  package:base  R Documentation'',
      [],
      js ''Arithmetic Mean'',
      [],
      js ''_D_e_s_c_r_i_p_t_i_o_n:'',
      js ''     Generic function for the mean.'',
      [],
      js ''_U_s_a_g_e:'',
      js ''     mean(x, ...)'',
      [],
      js ''_A_r_g_u_m_e_n_t_s:'',
      js ''       x: an R object.'',
      [],
      js ''_V_a_l_u_e:'',
      js ''     The mean of x.'',
      [],
      js ''_E_x_a_m_p_l_e_s:'',
      js ''     mean(1:10)'']"

text \<open>Help whose usage section holds one empty line.\<close>

definition blank_usage_help :: jsstring where
  "blank_usage_help = join_lines
     [js ''mean'', [], js ''Mean'', js ''Usage:'', [], js ''Arguments:'', js ''x'',
      js ''Value:'', js ''y'']"

text \<open>Help with a details section between the arguments and the value.\<close>

definition details_between_help :: jsstring where
  "details_between_help = join_lines
     [js ''mean'', [], js ''Mean'', js ''Usage:'', js ''u'', js ''Arguments:'', js ''a'',
      js ''Details:'', js ''d'', js ''Value:'', js ''v'']"

text \<open>Help whose arguments header has no content line.\<close>

definition empty_arguments_help :: jsstring where
  "empty_arguments_help = join_lines
     [js ''mean'', [], js ''Mean'', js ''Usage:'', js ''u'', js ''Arguments:'', js ''Value:'',
      js ''v'']"

text \<open>Help that starts with the usage header, before the line at index 3.\<close>

definition early_usage_help :: jsstring where
  "early_usage_help = join_lines
     [js ''Usage:'', js ''u'', js ''Arguments:'', js ''a'', js ''Value:'', js ''v'']"

text \<open>Help with the examples between the usage and the arguments.\<close>

definition examples_between_help :: jsstring where
  "examples_between_help = join_lines
     [js ''mean'', [], js ''Mean'', js ''_U_s_a_g_e:'', js ''mean(x)'', js ''_E_x_a_m_p_l_e_s:'',
      js ''mean(1)'', js ''_A_r_g_u_m_e_n_t_s:'', js ''x: an R object'', js ''_V_a_l_u_e:'',
      js ''a number'']"

text \<open>Help with a header that is followed by the next header at once.\<close>

definition empty_details_help :: jsstring where
  "empty_details_help = join_lines
     [js ''mean'', [], js ''Mean'', js ''_U_s_a_g_e:'', js ''mean(x)'', js ''_D_e_t_a_i_l_s:'',
      js ''_V_a_l_u_e:'', js ''a number'']"

text \<open>The overview of a package.\<close>

definition package_overview :: jsstring where
  "package_overview = join_lines
     [js ''Information on package base'', [], js ''Description:'', [], js ''Package: base'',
      js ''Index:'', js ''abs  Miscellaneous Mathematical Functions'']"

section \<open>Facts about the string operations\<close>

lemma starts_with_iff: "starts_with s t \<longleftrightarrow> (\<exists>b. s = t @ b)"
  by (induction s t rule: starts_with.induct) auto

lemma js_includes_iff: "js_includes s t \<longleftrightarrow> (\<exists>a b. s = a @ t @ b)"
proof (induction s)
  case Nil
  then show ?case by simp
next
  case (Cons c cs)
  show ?case
  proof
    assume "js_includes (c # cs) t"
    then consider "starts_with (c # cs) t" | "js_includes cs t"
      by auto
    then show "\<exists>a b. c # cs = a @ t @ b"
    proof cases
      case 1
      then obtain b where "c # cs = [] @ t @ b"
        by (auto simp: starts_with_iff)
      then show ?thesis by blast
    next
      case 2
      then obtain a b where "cs = a @ t @ b"
        using Cons.IH by blast
      then have "c # cs = (c # a) @ t @ b"
        by simp
      then show ?thesis by blast
    qed
  next
    assume "\<exists>a b. c # cs = a @ t @ b"
    then obtain a b where ab: "c # cs = a @ t @ b"
      by blast
    show "js_includes (c # cs) t"
    proof (cases a)
      case Nil
      with ab have "starts_with (c # cs) t"
        by (auto simp: starts_with_iff)
      then show ?thesis by simp
    next
      case (Cons x a')
      with ab have "cs = a' @ t @ b"
        by simp
      then have "js_includes cs t"
        using Cons.IH by blast
      then show ?thesis by simp
    qed
  qed
qed

lemma split_lines_nonempty: "split_lines s \<noteq> []"
  by (induction s) (simp_all add: Let_def)

lemma join_lines_Cons: "r \<noteq> [] \<Longrightarrow> join_lines ((c # hd r) # tl r) = c # join_lines r"
  by (cases r; cases "tl r") auto

lemma join_lines_Nil_Cons: "r \<noteq> [] \<Longrightarrow> join_lines ([] # r) = LF # join_lines r"
  by (cases r) auto

text \<open>Splitting loses nothing: joining the lines gives the text back.\<close>

lemma join_split_lines: "join_lines (split_lines s) = s"
  by (induction s)
    (simp_all add: Let_def join_lines_Cons join_lines_Nil_Cons split_lines_nonempty)

lemma split_lines_plain: "LF \<notin> set l \<Longrightarrow> split_lines l = [l]"
  by (induction l) (auto simp: Let_def)

lemma split_lines_append:
  "LF \<notin> set l \<Longrightarrow> split_lines (l @ LF # rest) = l # split_lines rest"
  by (induction l) (auto simp: Let_def)

text \<open>Every list of lines that hold no line feed is the split of a text.\<close>

lemma split_join_lines:
  "ls \<noteq> [] \<Longrightarrow> \<forall>l \<in> set ls. LF \<notin> set l \<Longrightarrow> split_lines (join_lines ls) = ls"
  by (induction ls rule: join_lines.induct)
    (simp_all add: split_lines_plain split_lines_append)

lemma trim_nonempty: "trim doc \<noteq> [] \<Longrightarrow> doc \<noteq> []"
  by (auto simp: trim_def)

section \<open>Facts about the scanner\<close>

lemma error_under_heading: "error (under_heading r h c) = error r"
  by (simp add: under_heading_def)

lemma error_addSectionToResult: "error (addSectionToResult r s c) = error r"
  by (simp add: addSectionToResult_def Let_def error_under_heading)

lemma error_save_section: "error (save_section r cur content) = error r"
  by (simp add: save_section_def error_addSectionToResult)

lemma error_scan_lines: "error (fst (scan_lines ls r cur content)) = error r"
  by (induction ls r cur content rule: scan_lines.induct) (simp_all add: error_save_section)

lemma error_fold_sections: "error (fold_sections ls r) = error r"
  using error_scan_lines [of ls r "[]" "[]"]
  by (auto simp: fold_sections_def error_save_section split: prod.splits)

text \<open>The guard \<^verbatim>\<open>lines.length > 2\<close> keeps the read of line 2 inside the array.\<close>

lemma with_title_cases:
  "with_title ls =
     Inr (if 2 < length ls then no_fields\<lparr>description := Some (trim (ls ! 2))\<rparr>
          else no_fields)"
  by (simp add: with_title_def line_at_def trim_of_def)

text \<open>So \<^verbatim>\<open>parseRDoc\<close> never throws.\<close>

lemma parseRDoc_returns: "\<exists>r. parseRDoc doc p s = Inr r"
  by (simp add: parseRDoc_def with_title_cases Let_def)

subsection \<open>The loop and the list of its sections\<close>

lemma add_sections_simps [simp]:
  "add_sections r [] = r"
  "add_sections r ((n, c) # secs) = add_sections (addSectionToResult r n c) secs"
  "add_sections r (xs @ ys) = add_sections (add_sections r xs) ys"
  by (simp_all add: add_sections_def)

lemma save_section_saved: "save_section r cur content = add_sections r (saved cur content)"
  by (simp add: save_section_def saved_def)

lemma scan_lines_saved:
  "(case scan_lines ls r cur content of (r', cur', content') \<Rightarrow> save_section r' cur' content') =
     add_sections r (saved_sections ls cur content)"
  by (induction ls r cur content rule: scan_lines.induct) (simp_all add: save_section_saved)

lemma fold_sections_saved: "fold_sections ls r = add_sections r (saved_sections ls [] [])"
  by (simp add: fold_sections_def scan_lines_saved)

text \<open>What \<^verbatim>\<open>parseRDoc\<close> returns for a text that passes its first test.\<close>

lemma parseRDoc_accepted:
  assumes "trim doc \<noteq> []" and "\<not> js_includes doc (js ''Documentation not found'')"
  shows "parseRDoc doc p s =
     Inr (let r = add_sections
                    (if 2 < length (split_lines doc)
                     then no_fields\<lparr>description := Some (trim (split_lines doc ! 2))\<rparr>
                     else no_fields)
                    (sections_of doc)
          in if \<not> truthy (usage r) \<and> \<not> truthy s then r\<lparr>usage := Some doc\<rparr> else r)"
proof -
  have "\<not> not_found doc"
    using assms trim_nonempty by (simp add: not_found_def)
  then show ?thesis
    by (simp add: parseRDoc_def with_title_cases fold_sections_saved sections_of_def Let_def)
qed

subsection \<open>The description and the usage under a list of sections\<close>

lemma description_under_heading: "description (under_heading r h c) = description r"
  by (simp add: under_heading_def)

lemma description_addSectionToResult:
  "description (addSectionToResult r n c) =
     (if toLowerCase n = js ''description'' then Some c else description r)"
  by (simp add: addSectionToResult_def Let_def description_under_heading)

lemma description_add_sections:
  "description (add_sections r secs) =
     (case filter (\<lambda>(n, c). toLowerCase n = js ''description'') secs of
        [] \<Rightarrow> description r
      | x # xs \<Rightarrow> Some (snd (last (x # xs))))"
proof (induction secs arbitrary: r)
  case Nil
  then show ?case by simp
next
  case (Cons sec secs)
  obtain n c where sec: "sec = (n, c)"
    by (cases sec)
  show ?case
    unfolding sec
    by (simp add: Cons.IH description_addSectionToResult split: list.splits)
qed

lemma usage_addSectionToResult_other:
  "\<not> goes_to_usage n \<Longrightarrow> usage (addSectionToResult r n c) = usage r"
  by (simp add: addSectionToResult_def goes_to_usage_def Let_def)

lemma usage_add_sections_other:
  "\<forall>(n, c) \<in> set secs. \<not> goes_to_usage n \<Longrightarrow> usage (add_sections r secs) = usage r"
  by (induction secs arbitrary: r) (auto simp: usage_addSectionToResult_other)

lemma usage_set:
  "toLowerCase n = js ''usage'' \<Longrightarrow> usage (addSectionToResult r n c) = Some c"
  by (simp add: addSectionToResult_def Let_def)

lemma usage_arguments:
  "toLowerCase n = js ''arguments'' \<Longrightarrow> usage r = Some u \<Longrightarrow> u \<noteq> [] \<Longrightarrow>
     usage (addSectionToResult r n c) =
       Some (u @ [LF, LF] @ js ''## Arguments'' @ [LF, LF] @ c)"
  by (simp add: addSectionToResult_def Let_def under_heading_def truthy_def)

lemma usage_value:
  "toLowerCase n = js ''value'' \<Longrightarrow> usage r = Some u \<Longrightarrow> u \<noteq> [] \<Longrightarrow>
     usage (addSectionToResult r n c) =
       Some (u @ [LF, LF] @ js ''## Return Value'' @ [LF, LF] @ c)"
  by (simp add: addSectionToResult_def Let_def under_heading_def truthy_def)

subsection \<open>How the lines are cut into sections\<close>

lemma saved_empty [simp]: "saved cur [] = []"
  by (simp add: saved_def)

lemma saved_sections_at_header:
  "rest = [] \<or> is_header (hd rest) \<Longrightarrow>
     saved_sections rest cur content = saved cur content @ saved_sections rest [] []"
  by (cases rest) auto

text \<open>A header with no content line behind it leaves no trace.\<close>

lemma saved_sections_skip_empty:
  assumes "is_header h" and "rest = [] \<or> is_header (hd rest)"
  shows "saved_sections (pre @ h # rest) cur content = saved_sections (pre @ rest) cur content"
proof (induction pre arbitrary: cur content)
  case Nil
  show ?case
    using assms saved_sections_at_header [OF assms(2), of "section_name h" "[]"]
      saved_sections_at_header [OF assms(2), of cur content]
    by simp
next
  case (Cons l pre)
  then show ?case by simp
qed

lemma saved_sections_content:
  "\<forall>l \<in> set ls. \<not> is_header l \<Longrightarrow>
     saved_sections (ls @ rest) cur content = saved_sections rest cur (content @ ls)"
  by (induction ls arbitrary: content) simp_all

lemma saved_sections_split:
  "is_header h \<Longrightarrow>
     saved_sections (xs @ h # ys) cur content =
       saved_sections xs cur content @ saved_sections (h # ys) [] []"
  by (induction xs arbitrary: cur content) simp_all

lemma saved_sections_section:
  assumes "is_header h" and "\<forall>l \<in> set ls. \<not> is_header l" and "ls \<noteq> []"
    and "section_name h \<noteq> []" and "rest = [] \<or> is_header (hd rest)"
  shows "saved_sections (h # ls @ rest) [] [] =
           (section_name h, join_lines ls) # saved_sections rest [] []"
  using assms saved_sections_at_header [OF assms(5), of "section_name h" ls]
  by (simp add: saved_sections_content saved_def)

text \<open>The saved sections, read off the blocks of the lines.\<close>

lemma blocks_dropWhile: "blocks (dropWhile (\<lambda>x. \<not> is_header x) ls) = blocks ls"
  by (induction ls) simp_all

lemma saved_sections_blocks:
  "saved_sections ls cur content =
     saved cur (content @ takeWhile (\<lambda>x. \<not> is_header x) ls) @
     concat (map (\<lambda>(h, c). saved (section_name h) c) (blocks ls))"
  by (induction ls arbitrary: cur content) (simp_all add: blocks_dropWhile)

lemma sections_of_blocks:
  "sections_of doc =
     concat (map (\<lambda>(h, c). saved (section_name h) c) (blocks (drop 3 (split_lines doc))))"
  by (simp add: sections_of_def saved_sections_blocks [of _ "[]" "[]"] saved_def)

section \<open>Text without documentation\<close>

text \<open>
  Claim C1, as stated: when the raw text is empty, consists of white space only or
  contains the marker \<^verbatim>\<open>Documentation not found\<close>, \<^verbatim>\<open>parseRDoc\<close>
  returns the result whose only field is \<open>error\<close>, with the message for
  \<open>package::symbol\<close> when the symbol is present and the message for the package
  otherwise. The empty string is a symbol that is present (\<^verbatim>\<open>isRDocArgs\<close>
  accepts it), and the source's test \<^verbatim>\<open>symbol ? ... : ...\<close> takes it for
  none: the message is the one for the package, not \<^verbatim>\<open>base::\<close>.
\<close>

theorem parseRDoc_not_found_empty_symbol_counterexample:
  "parseRDoc [] (js ''base'') (Some []) =
     Inr \<lparr>description = None, usage = None, example = None,
          error = Some (js ''Documentation not found for package base''),
          searchResults = None, suggestInstall = None\<rparr> \<and>
   js ''Documentation not found for package base'' \<noteq>
   js ''Documentation not found for '' @ js ''base'' @ js ''::'' @ []"
  by code_simp

text \<open>
  Claim C1, amended: when the raw text is empty, consists of white space only or contains
  the marker, \<^verbatim>\<open>parseRDoc\<close> returns the result whose only field is
  \<open>error\<close>, with the message for \<open>package::symbol\<close> when the symbol is a string
  that is not empty, and the message for the package when there is no symbol or the symbol
  is the empty string. The result is this record whatever sections the text has: the
  scanner has no part in it.
\<close>

theorem parseRDoc_not_found:
  assumes "doc = [] \<or> trim doc = [] \<or> js_includes doc (js ''Documentation not found'')"
  shows "parseRDoc doc packageName symbolArg =
           Inr \<lparr>description = None, usage = None, example = None,
                error = Some (js ''Documentation not found for '' @
                         (if truthy symbolArg then packageName @ js ''::'' @ the symbolArg
                          else js ''package '' @ packageName)),
                searchResults = None, suggestInstall = None\<rparr>"
proof -
  from assms have "not_found doc"
    unfolding not_found_def by blast
  then show ?thesis
    by (simp add: parseRDoc_def no_fields_def not_found_message_def)
qed

theorem parseRDoc_not_found_witness:
  "trim (js ''  '') = [] \<and>
   parseRDoc (js ''  '') (js ''base'') (Some (js ''mean'')) =
     Inr \<lparr>description = None, usage = None, example = None,
          error = Some (js ''Documentation not found for base::mean''),
          searchResults = None, suggestInstall = None\<rparr>"
proof -
  have h: "trim (js ''  '') = []"
    by code_simp
  then have "js ''  '' = [] \<or> trim (js ''  '') = []
      \<or> js_includes (js ''  '') (js ''Documentation not found'')"
    by blast
  from parseRDoc_not_found [OF this, of "js ''base''" "Some (js ''mean'')"] h
  show ?thesis
    by (simp add: truthy_def)
qed

text \<open>
  Claim C2, as stated: every text that is not empty and does not contain the marker is
  parsed without an \<open>error\<close> field. A single space is such a text, and it is
  answered with the error: the first test of \<^verbatim>\<open>parseRDoc\<close> also rejects text
  that \<^verbatim>\<open>trim\<close> empties.
\<close>

theorem parseRDoc_error_counterexample:
  "js '' '' \<noteq> [] \<and>
   \<not> js_includes (js '' '') (js ''Documentation not found'') \<and>
   parseRDoc (js '' '') (js ''base'') None =
     Inr \<lparr>description = None, usage = None, example = None,
          error = Some (js ''Documentation not found for package base''),
          searchResults = None, suggestInstall = None\<rparr>"
  by code_simp

text \<open>
  Claim C2, amended: every text that is not empty after trimming and does not contain the
  marker is parsed, without a throw, into a result that has no \<open>error\<close> field.
\<close>

theorem parseRDoc_no_error:
  assumes "trim doc \<noteq> []"
    and "\<not> js_includes doc (js ''Documentation not found'')"
  shows "\<exists>r. parseRDoc doc packageName symbolArg = Inr r \<and> error r = None"
proof -
  have "doc \<noteq> []"
    using assms(1) by (auto simp: trim_def)
  with assms have "\<not> not_found doc"
    by (simp add: not_found_def)
  then show ?thesis
    by (simp add: parseRDoc_def with_title_cases Let_def error_fold_sections no_fields_def)
qed

theorem parseRDoc_no_error_witness:
  "trim (js ''x'') \<noteq> [] \<and> \<not> js_includes (js ''x'') (js ''Documentation not found'') \<and>
   (\<exists>r. parseRDoc (js ''x'') (js ''base'') None = Inr r \<and> error r = None)"
proof -
  have h1: "trim (js ''x'') \<noteq> []"
    by code_simp
  have h2: "\<not> js_includes (js ''x'') (js ''Documentation not found'')"
    by code_simp
  from parseRDoc_no_error [OF h1 h2] h1 h2 show ?thesis
    by blast
qed

section \<open>The order of the usage text\<close>

text \<open>
  Claim C3, as stated: for every accepted text that contains sections named Usage,
  Arguments and Value, in that order and with the contents \<open>U\<close>, \<open>A\<close> and \<open>V\<close>,
  the usage field is \<open>U\<close>, a blank line, the line \<^verbatim>\<open>## Arguments\<close>, a blank
  line, \<open>A\<close>, a blank line, the line \<^verbatim>\<open>## Return Value\<close>, a blank line and
  \<open>V\<close>. Four texts with these three sections get another usage field:
  \<^item> in \<open>blank_usage_help\<close> the usage section holds one empty line, so \<open>U\<close> is the
    empty string; \<^verbatim>\<open>addSectionToResult\<close> finds \<^verbatim>\<open>result.usage\<close> falsy at
    the arguments and starts the usage text anew, without the blank line in front;
  \<^item> in \<open>details_between_help\<close> a details section stands between the arguments and
    the value, and its block is in the usage text between theirs;
  \<^item> in \<open>empty_arguments_help\<close> the arguments header has no content line, and the
    scanner does not save the section: the usage text has no block for it;
  \<^item> in \<open>early_usage_help\<close> the usage and arguments headers stand before the line at
    index 3, where the scanner starts: only the value section is saved.
\<close>

theorem usage_fold_order_counterexample:
  "(trim blank_usage_help \<noteq> [] \<and>
    \<not> js_includes blank_usage_help (js ''Documentation not found'') \<and>
    sections_of blank_usage_help =
      [(js ''Usage'', []), (js ''Arguments'', js ''x''), (js ''Value'', js ''y'')] \<and>
    parseRDoc blank_usage_help (js ''base'') (Some (js ''mean'')) =
      Inr \<lparr>description = Some (js ''Mean''),
           usage = Some (js ''## Arguments'' @ [LF, LF] @ js ''x'' @ [LF, LF] @
                         js ''## Return Value'' @ [LF, LF] @ js ''y''),
           example = None, error = None, searchResults = None, suggestInstall = None\<rparr> \<and>
    js ''## Arguments'' @ [LF, LF] @ js ''x'' @ [LF, LF] @ js ''## Return Value'' @ [LF, LF] @
      js ''y'' \<noteq>
    [] @ [LF, LF] @ js ''## Arguments'' @ [LF, LF] @ js ''x'' @ [LF, LF] @
      js ''## Return Value'' @ [LF, LF] @ js ''y'') \<and>
   (trim details_between_help \<noteq> [] \<and>
    \<not> js_includes details_between_help (js ''Documentation not found'') \<and>
    sections_of details_between_help =
      [(js ''Usage'', js ''u''), (js ''Arguments'', js ''a''), (js ''Details'', js ''d''),
       (js ''Value'', js ''v'')] \<and>
    parseRDoc details_between_help (js ''base'') (Some (js ''mean'')) =
      Inr \<lparr>description = Some (js ''Mean''),
           usage = Some (js ''u'' @ [LF, LF] @ js ''## Arguments'' @ [LF, LF] @ js ''a'' @
                         [LF, LF] @ js ''## Details'' @ [LF, LF] @ js ''d'' @ [LF, LF] @
                         js ''## Return Value'' @ [LF, LF] @ js ''v''),
           example = None, error = None, searchResults = None, suggestInstall = None\<rparr> \<and>
    js ''u'' @ [LF, LF] @ js ''## Arguments'' @ [LF, LF] @ js ''a'' @ [LF, LF] @
      js ''## Details'' @ [LF, LF] @ js ''d'' @ [LF, LF] @ js ''## Return Value'' @ [LF, LF] @
      js ''v'' \<noteq>
    js ''u'' @ [LF, LF] @ js ''## Arguments'' @ [LF, LF] @ js ''a'' @ [LF, LF] @
      js ''## Return Value'' @ [LF, LF] @ js ''v'') \<and>
   (trim empty_arguments_help \<noteq> [] \<and>
    \<not> js_includes empty_arguments_help (js ''Documentation not found'') \<and>
    sections_of empty_arguments_help = [(js ''Usage'', js ''u''), (js ''Value'', js ''v'')] \<and>
    parseRDoc empty_arguments_help (js ''base'') (Some (js ''mean'')) =
      Inr \<lparr>description = Some (js ''Mean''),
           usage = Some (js ''u'' @ [LF, LF] @ js ''## Return Value'' @ [LF, LF] @ js ''v''),
           example = None, error = None, searchResults = None, suggestInstall = None\<rparr> \<and>
    js ''u'' @ [LF, LF] @ js ''## Return Value'' @ [LF, LF] @ js ''v'' \<noteq>
    js ''u'' @ [LF, LF] @ js ''## Arguments'' @ [LF, LF] @ [] @ [LF, LF] @
      js ''## Return Value'' @ [LF, LF] @ js ''v'') \<and>
   (trim early_usage_help \<noteq> [] \<and>
    \<not> js_includes early_usage_help (js ''Documentation not found'') \<and>
    sections_of early_usage_help = [(js ''Value'', js ''v'')] \<and>
    parseRDoc early_usage_help (js ''base'') (Some (js ''mean'')) =
      Inr \<lparr>description = Some (js ''Arguments:''),
           usage = Some (js ''## Return Value'' @ [LF, LF] @ js ''v''),
           example = None, error = None, searchResults = None, suggestInstall = None\<rparr> \<and>
    js ''## Return Value'' @ [LF, LF] @ js ''v'' \<noteq>
    js ''u'' @ [LF, LF] @ js ''## Arguments'' @ [LF, LF] @ js ''a'' @ [LF, LF] @
      js ''## Return Value'' @ [LF, LF] @ js ''v'')"
  by code_simp

text \<open>
  Claim C3, amended. The saved sections of a text are the sections that
  \<^verbatim>\<open>parseRDoc\<close> hands to \<^verbatim>\<open>addSectionToResult\<close>, in their order: for each
  header line at index 3 or later whose section name is not empty and that is followed by
  at least one content line before the next header, the name with these content lines
  joined by line feeds (\<open>sections_of\<close>; see \<open>fold_sections_saved\<close> and
  \<open>sections_of_blocks\<close>). For every accepted text whose saved sections contain, in that
  order, a section named usage with a content \<open>U\<close> that is not the empty string, a
  section named arguments with content \<open>A\<close> and a section named value with content
  \<open>V\<close> (names compared without case), and in which no other saved section behind that
  usage section is one written to the usage field (Usage, Arguments, Value, Details,
  References, Seealso, Author, Note, without case), the usage field is \<open>U\<close>, a blank
  line, the line \<^verbatim>\<open>## Arguments\<close>, a blank line, \<open>A\<close>, a blank line, the line
  \<^verbatim>\<open>## Return Value\<close>, a blank line and \<open>V\<close>. Sections before the usage
  section, and other sections between and behind the three, do not matter.
\<close>

theorem usage_fold_order:
  assumes "trim doc \<noteq> []"
    and "\<not> js_includes doc (js ''Documentation not found'')"
    and "sections_of doc =
           before @ (nU, U) # between1 @ (nA, A) # between2 @ (nV, V) # after"
    and "toLowerCase nU = js ''usage''"
    and "toLowerCase nA = js ''arguments''"
    and "toLowerCase nV = js ''value''"
    and "U \<noteq> []"
    and "\<forall>(n, c) \<in> set (between1 @ between2 @ after). \<not> goes_to_usage n"
  shows "\<exists>r. parseRDoc doc packageName symbolArg = Inr r \<and>
           usage r =
             Some (U @ [LF, LF] @ js ''## Arguments'' @ [LF, LF] @ A @
                   [LF, LF] @ js ''## Return Value'' @ [LF, LF] @ V)"
proof -
  have other: "\<forall>(n, c) \<in> set between1. \<not> goes_to_usage n"
    "\<forall>(n, c) \<in> set between2. \<not> goes_to_usage n"
    "\<forall>(n, c) \<in> set after. \<not> goes_to_usage n"
    using assms(8) by auto
  define r0 where "r0 =
    add_sections (if 2 < length (split_lines doc)
                  then no_fields\<lparr>description := Some (trim (split_lines doc ! 2))\<rparr>
                  else no_fields) before"
  define r1 where "r1 = add_sections (addSectionToResult r0 nU U) between1"
  define r2 where "r2 = add_sections (addSectionToResult r1 nA A) between2"
  define r3 where "r3 = add_sections (addSectionToResult r2 nV V) after"
  have u1: "usage r1 = Some U"
    unfolding r1_def by (simp add: usage_add_sections_other [OF other(1)] usage_set [OF assms(4)])
  have u2: "usage r2 = Some (U @ [LF, LF] @ js ''## Arguments'' @ [LF, LF] @ A)"
    unfolding r2_def
    by (simp only: usage_add_sections_other [OF other(2)]
        usage_arguments [OF assms(5) u1 assms(7)])
  have nonempty: "U @ [LF, LF] @ js ''## Arguments'' @ [LF, LF] @ A \<noteq> []"
    using assms(7) by simp
  have u3: "usage r3 = Some (U @ [LF, LF] @ js ''## Arguments'' @ [LF, LF] @ A @
      [LF, LF] @ js ''## Return Value'' @ [LF, LF] @ V)"
    unfolding r3_def
    by (simp only: usage_add_sections_other [OF other(3)]
        usage_value [OF assms(6) u2 nonempty] append_assoc)
  have all: "add_sections (if 2 < length (split_lines doc)
                  then no_fields\<lparr>description := Some (trim (split_lines doc ! 2))\<rparr>
                  else no_fields) (sections_of doc) = r3"
    unfolding assms(3) r3_def r2_def r1_def r0_def by simp
  from u3 assms(7) show ?thesis
    unfolding parseRDoc_accepted [OF assms(1,2)] all
    by (simp add: Let_def truthy_def)
qed

theorem usage_fold_order_witness:
  "sections_of examples_between_help =
     [] @ (js ''Usage'', js ''mean(x)'') # [(js ''Examples'', js ''mean(1)'')] @
     (js ''Arguments'', js ''x: an R object'') # [] @ (js ''Value'', js ''a number'') # [] \<and>
   (\<exists>r. parseRDoc examples_between_help (js ''base'') (Some (js ''mean'')) = Inr r \<and>
        usage r =
          Some (js ''mean(x)'' @ [LF, LF] @ js ''## Arguments'' @ [LF, LF] @
                js ''x: an R object'' @ [LF, LF] @ js ''## Return Value'' @ [LF, LF] @
                js ''a number''))"
proof -
  have h1: "trim examples_between_help \<noteq> []"
    by code_simp
  have h2: "\<not> js_includes examples_between_help (js ''Documentation not found'')"
    by code_simp
  have h3: "sections_of examples_between_help =
      [] @ (js ''Usage'', js ''mean(x)'') # [(js ''Examples'', js ''mean(1)'')] @
      (js ''Arguments'', js ''x: an R object'') # [] @ (js ''Value'', js ''a number'') # []"
    by code_simp
  have h4: "toLowerCase (js ''Usage'') = js ''usage''"
    and h5: "toLowerCase (js ''Arguments'') = js ''arguments''"
    and h6: "toLowerCase (js ''Value'') = js ''value''"
    and h7: "js ''mean(x)'' \<noteq> []"
    by code_simp+
  have h8: "\<forall>(n, c) \<in> set ([(js ''Examples'', js ''mean(1)'')] @ [] @ []). \<not> goes_to_usage n"
    by code_simp
  from usage_fold_order [OF h1 h2 h3 h4 h5 h6 h7 h8, of "js ''base''" "Some (js ''mean'')"] h3
  show ?thesis
    by blast
qed

section \<open>The fallback for the usage text\<close>

text \<open>
  Claim C4, as stated: for every accepted text in which no section populated the usage
  field, \<^verbatim>\<open>parseRDoc\<close> sets the usage field to the whole raw text when the
  symbol is absent, and leaves it absent when the symbol is present. The empty string is
  a symbol that is present (\<^verbatim>\<open>isRDocArgs\<close> accepts it), and the source's test
  \<^verbatim>\<open>!symbol\<close> takes it for none: the usage field becomes the raw text.
\<close>

theorem parseRDoc_usage_fallback_empty_symbol_counterexample:
  "trim (js ''x'') \<noteq> [] \<and>
   \<not> js_includes (js ''x'') (js ''Documentation not found'') \<and>
   sections_of (js ''x'') = [] \<and>
   parseRDoc (js ''x'') (js ''base'') (Some []) =
     Inr \<lparr>description = None, usage = Some (js ''x''), example = None, error = None,
          searchResults = None, suggestInstall = None\<rparr>"
  by code_simp

text \<open>
  Claim C4, amended: for every accepted text none of whose saved sections (the sections
  handed to \<^verbatim>\<open>addSectionToResult\<close>) is named, without case, Usage, Arguments,
  Value, Details, References, Seealso, Author or Note, \<^verbatim>\<open>parseRDoc\<close> sets the
  usage field to the whole raw text when there is no symbol or the symbol is the empty
  string, and leaves it absent when the symbol is a string that is not empty.
\<close>

theorem parseRDoc_usage_fallback:
  assumes "trim doc \<noteq> []"
    and "\<not> js_includes doc (js ''Documentation not found'')"
    and "\<forall>(n, c) \<in> set (sections_of doc). \<not> goes_to_usage n"
  shows "\<exists>r. parseRDoc doc packageName symbolArg = Inr r \<and>
           usage r = (if truthy symbolArg then None else Some doc)"
  unfolding parseRDoc_accepted [OF assms(1,2)]
  by (simp add: Let_def usage_add_sections_other [OF assms(3)] no_fields_def truthy_def)

theorem parseRDoc_usage_fallback_witness:
  "sections_of package_overview = [(js ''Index'', js ''abs  Miscellaneous Mathematical Functions'')] \<and>
   (\<exists>r. parseRDoc package_overview (js ''base'') None = Inr r \<and>
        usage r = Some package_overview) \<and>
   (\<exists>r. parseRDoc package_overview (js ''base'') (Some (js ''abs'')) = Inr r \<and> usage r = None)"
proof -
  have h1: "trim package_overview \<noteq> []"
    by code_simp
  have h2: "\<not> js_includes package_overview (js ''Documentation not found'')"
    by code_simp
  have s: "sections_of package_overview =
      [(js ''Index'', js ''abs  Miscellaneous Mathematical Functions'')]"
    by code_simp
  have h3: "\<forall>(n, c) \<in> set (sections_of package_overview). \<not> goes_to_usage n"
    by code_simp
  from parseRDoc_usage_fallback [OF h1 h2 h3, of "js ''base''" None]
    parseRDoc_usage_fallback [OF h1 h2 h3, of "js ''base''" "Some (js ''abs'')"] s
  show ?thesis
    by (simp add: truthy_def)
qed

section \<open>The description\<close>

text \<open>
  Claim C5. For every accepted text \<^verbatim>\<open>parseRDoc\<close> returns without a throw. When
  the text has more than two lines the description is the trimmed line at index 2, unless
  sections named description (without case) are handed to \<^verbatim>\<open>addSectionToResult\<close>:
  then it is the content of the last of them. When the text has at most two lines no
  section is handed over and the description is absent.
\<close>

theorem parseRDoc_description:
  assumes "trim doc \<noteq> []"
    and "\<not> js_includes doc (js ''Documentation not found'')"
  shows "\<exists>r. parseRDoc doc packageName symbolArg = Inr r \<and>
           description r =
             (case filter (\<lambda>(n, c). toLowerCase n = js ''description'') (sections_of doc) of
                [] \<Rightarrow> if 2 < length (split_lines doc)
                       then Some (trim (split_lines doc ! 2)) else None
              | x # xs \<Rightarrow> Some (snd (last (x # xs)))) \<and>
           (length (split_lines doc) \<le> 2 \<longrightarrow> sections_of doc = [] \<and> description r = None)"
proof -
  have short: "sections_of doc = []" if "length (split_lines doc) \<le> 2"
    using that by (simp add: sections_of_def saved_def)
  show ?thesis
    unfolding parseRDoc_accepted [OF assms]
    by (auto simp: Let_def description_add_sections no_fields_def short split: list.splits)
qed

theorem parseRDoc_description_witness:
  "trim (split_lines empty_details_help ! 2) = js ''Mean'' \<and>
   (\<exists>r. parseRDoc empty_details_help (js ''base'') (Some (js ''mean'')) = Inr r \<and>
        description r = Some (js ''Mean'')) \<and>
   (\<exists>r. parseRDoc mean_help (js ''base'') (Some (js ''mean'')) = Inr r \<and>
        description r = Some (js ''     Generic function for the mean.'' @ [LF])) \<and>
   length (split_lines (js ''Mean'' @ [LF] @ js ''Usage:'')) = 2 \<and>
   (\<exists>r. parseRDoc (js ''Mean'' @ [LF] @ js ''Usage:'') (js ''base'') (Some (js ''mean'')) = Inr r \<and>
        description r = None)"
proof -
  have a1: "trim empty_details_help \<noteq> []"
    and a2: "\<not> js_includes empty_details_help (js ''Documentation not found'')"
    and b1: "trim mean_help \<noteq> []"
    and b2: "\<not> js_includes mean_help (js ''Documentation not found'')"
    and c1: "trim (js ''Mean'' @ [LF] @ js ''Usage:'') \<noteq> []"
    and c2: "\<not> js_includes (js ''Mean'' @ [LF] @ js ''Usage:'') (js ''Documentation not found'')"
    by code_simp+
  have a3: "filter (\<lambda>(n, c). toLowerCase n = js ''description'') (sections_of empty_details_help) = []"
    and a4: "2 < length (split_lines empty_details_help)"
    and a5: "trim (split_lines empty_details_help ! 2) = js ''Mean''"
    by code_simp+
  have b3: "filter (\<lambda>(n, c). toLowerCase n = js ''description'') (sections_of mean_help) =
      [(js ''Description'', js ''     Generic function for the mean.'' @ [LF])]"
    by code_simp
  have c3: "length (split_lines (js ''Mean'' @ [LF] @ js ''Usage:'')) = 2"
    by code_simp
  from parseRDoc_description [OF a1 a2, of "js ''base''" "Some (js ''mean'')"]
  have a: "\<exists>r. parseRDoc empty_details_help (js ''base'') (Some (js ''mean'')) = Inr r \<and>
        description r = Some (js ''Mean'')"
    unfolding a3 using a4 a5 by auto
  from parseRDoc_description [OF b1 b2, of "js ''base''" "Some (js ''mean'')"]
  have b: "\<exists>r. parseRDoc mean_help (js ''base'') (Some (js ''mean'')) = Inr r \<and>
        description r = Some (js ''     Generic function for the mean.'' @ [LF])"
    unfolding b3 by auto
  from parseRDoc_description [OF c1 c2, of "js ''base''" "Some (js ''mean'')"]
  have c: "\<exists>r. parseRDoc (js ''Mean'' @ [LF] @ js ''Usage:'') (js ''base'') (Some (js ''mean'')) = Inr r \<and>
        description r = None"
    using c3 by auto
  from a b c a5 c3 show ?thesis
    by blast
qed

section \<open>Headers without content\<close>

text \<open>
  Claim C10. In an accepted text, a header line (at index 3 or later) that is followed at
  once by another header line, or by the end of the text, is dropped: the result of
  \<^verbatim>\<open>parseRDoc\<close> is the one the scanning loop computes from the lines without
  that header, so no call of \<^verbatim>\<open>addSectionToResult\<close> is made for it and no field
  set before is cleared or overwritten by it. (The fallback for the usage field stores
  the raw text itself, with the header line in it.)
\<close>

theorem empty_section_dropped:
  assumes "trim doc \<noteq> []"
    and "\<not> js_includes doc (js ''Documentation not found'')"
    and "split_lines doc = pre @ h # rest"
    and "3 \<le> length pre"
    and "is_header h"
    and "rest = [] \<or> is_header (hd rest)"
  shows "parseRDoc doc packageName symbolArg =
           Inr (let r = fold_sections (drop 3 (pre @ rest))
                          (no_fields\<lparr>description := Some (trim (pre ! 2))\<rparr>)
                in if \<not> truthy (usage r) \<and> \<not> truthy symbolArg
                   then r\<lparr>usage := Some doc\<rparr> else r)"
proof -
  have "sections_of doc = saved_sections (drop 3 pre @ rest) [] []"
    using assms(3,4) by (simp add: sections_of_def saved_sections_skip_empty [OF assms(5,6)])
  moreover have "split_lines doc ! 2 = pre ! 2" and "2 < length (split_lines doc)"
    using assms(3,4) by (simp_all add: nth_append)
  ultimately show ?thesis
    using assms(4)
    by (simp add: parseRDoc_accepted [OF assms(1,2)] fold_sections_saved)
qed

theorem empty_section_dropped_witness:
  "split_lines empty_details_help =
     [js ''mean'', [], js ''Mean'', js ''_U_s_a_g_e:'', js ''mean(x)''] @
     js ''_D_e_t_a_i_l_s:'' # [js ''_V_a_l_u_e:'', js ''a number''] \<and>
   parseRDoc empty_details_help (js ''base'') (Some (js ''mean'')) =
     Inr \<lparr>description = Some (js ''Mean''),
          usage = Some (js ''mean(x)'' @ [LF, LF] @ js ''## Return Value'' @ [LF, LF] @
                        js ''a number''),
          example = None, error = None, searchResults = None, suggestInstall = None\<rparr>"
proof -
  let ?pre = "[js ''mean'', [], js ''Mean'', js ''_U_s_a_g_e:'', js ''mean(x)'']"
  let ?rest = "[js ''_V_a_l_u_e:'', js ''a number'']"
  have h1: "trim empty_details_help \<noteq> []"
    and h2: "\<not> js_includes empty_details_help (js ''Documentation not found'')"
    and h3: "split_lines empty_details_help = ?pre @ js ''_D_e_t_a_i_l_s:'' # ?rest"
    and h5: "is_header (js ''_D_e_t_a_i_l_s:'')"
    and h6: "?rest = [] \<or> is_header (hd ?rest)"
    by code_simp+
  have h4: "3 \<le> length ?pre"
    by simp
  have e: "(let r = fold_sections (drop 3 (?pre @ ?rest))
                      (no_fields\<lparr>description := Some (trim (?pre ! 2))\<rparr>)
            in if \<not> truthy (usage r) \<and> \<not> truthy (Some (js ''mean''))
               then r\<lparr>usage := Some empty_details_help\<rparr> else r) =
      \<lparr>description = Some (js ''Mean''),
       usage = Some (js ''mean(x)'' @ [LF, LF] @ js ''## Return Value'' @ [LF, LF] @
                     js ''a number''),
       example = None, error = None, searchResults = None, suggestInstall = None\<rparr>"
    by code_simp
  from empty_section_dropped [OF h1 h2 h3 h4 h5 h6, of "js ''base''" "Some (js ''mean'')"] h3
  show ?thesis
    unfolding e by simp
qed

section \<open>Facts about the handler\<close>

text \<open>The two checks never throw; each runs one command.\<close>

lemma isRInstalled_run:
  "isRInstalled sh w =
     (Inr (\<not> isl (sh (history w) which_command)),
      w\<lparr>history := history w @ [which_command]\<rparr>)"
  by (simp add: isRInstalled_def try_catch_def await_def execAsync_def resolve_def
      split: sum.splits)

lemma isRPackageInstalled_run:
  "isRPackageInstalled sh p w =
     (Inr (case sh (history w) (installed_command p) of
             Inl e \<Rightarrow> False | Inr out \<Rightarrow> trim out = js ''TRUE''),
      w\<lparr>history := history w @ [installed_command p]\<rparr>)"
  by (simp add: isRPackageInstalled_def try_catch_def await_def execAsync_def resolve_def
      split: sum.splits)

lemma isRInstalled_result:
  "fst (isRInstalled sh w) = Inr b \<longleftrightarrow> b = (\<not> isl (sh (history w) which_command))"
  by (auto simp: isRInstalled_run)

lemma isRPackageInstalled_result:
  "fst (isRPackageInstalled sh p (snd (isRInstalled sh w))) = Inr b \<longleftrightarrow>
     b = (case sh (history w @ [which_command]) (installed_command p) of
            Inl e \<Rightarrow> False | Inr out \<Rightarrow> trim out = js ''TRUE'')"
  by (auto simp: isRInstalled_run isRPackageInstalled_run)

text \<open>
  What the two entry points return, by the outcome of the checks.
\<close>

lemma describeRPackage_no_tool:
  assumes "isl (sh (history w) which_command)"
  shows "describeRPackage sh args w =
           (Inr r_missing,
            w\<lparr>history := history w @ [which_command],
              logged := logged w @ [LogInfo (js ''Getting R documentation for '' @
                          display_name (package args) (symbol args))]\<rparr>)"
  using assms
  by (simp add: describeRPackage_def await_def try_catch_def logger_info_def
      isRInstalled_run resolve_def)

lemma describeRPackage_no_package:
  assumes "\<not> isl (sh (history w) which_command)"
    and "\<not> (case sh (history w @ [which_command]) (installed_command (package args)) of
        Inl e \<Rightarrow> False | Inr out \<Rightarrow> trim out = js ''TRUE'')"
  shows "describeRPackage sh args w =
           (Inr (package_missing (package args)),
            w\<lparr>history := history w @ [which_command, installed_command (package args)],
              logged := logged w @ [LogInfo (js ''Getting R documentation for '' @
                          display_name (package args) (symbol args))]\<rparr>)"
  using assms
  by (simp add: describeRPackage_def await_def try_catch_def logger_info_def
      isRInstalled_run isRPackageInstalled_run resolve_def)

lemma describeRPackage_fetch:
  assumes "\<not> isl (sh (history w) which_command)"
    and "(case sh (history w @ [which_command]) (installed_command (package args)) of
        Inl e \<Rightarrow> False | Inr out \<Rightarrow> trim out = js ''TRUE'')"
  shows "fst (describeRPackage sh args w) =
           Inr (case sh (history w @ [which_command, installed_command (package args)])
                     (if truthy (symbol args)
                      then help_symbol_command (the (symbol args)) (package args)
                      else help_package_command (package args)) of
                  Inl e \<Rightarrow> fetch_failed e
                | Inr out \<Rightarrow>
                    (case parseRDoc out (package args) (symbol args) of
                       Inl e \<Rightarrow> fetch_failed e | Inr r \<Rightarrow> r))"
    and "history (snd (describeRPackage sh args w)) =
           history w @ [which_command, installed_command (package args),
             if truthy (symbol args)
             then help_symbol_command (the (symbol args)) (package args)
             else help_package_command (package args)]"
  using assms
  by (simp_all add: describeRPackage_def await_def try_catch_def logger_info_def logger_error_def
      isRInstalled_run isRPackageInstalled_run resolve_def execAsync_def settle_def
      split: sum.splits)


lemma getRPackageDoc_fetch:
  assumes "\<not> isl (sh (history w) which_command)"
    and "(case sh (history w @ [which_command]) (installed_command (package args)) of
        Inl e \<Rightarrow> False | Inr out \<Rightarrow> trim out = js ''TRUE'')"
  shows "fst (getRPackageDoc sh args w) =
     Inr (if truthy (symbol args) then
            (case sh (history w @ [which_command, installed_command (package args)])
                    (help_symbol_command (the (symbol args)) (package args)) of
               Inl e \<Rightarrow> fetch_failed e
             | Inr helpOutput \<Rightarrow>
                 (case parseRDoc helpOutput (package args) (symbol args) of
                    Inl e \<Rightarrow> fetch_failed e
                  | Inr result \<Rightarrow>
                      (case sh (history w @ [which_command, installed_command (package args),
                                  help_symbol_command (the (symbol args)) (package args)])
                              (examples_command (the (symbol args)) (package args)) of
                         Inl e \<Rightarrow> result
                       | Inr examplesOutput \<Rightarrow>
                           if examplesOutput \<noteq> [] \<and> trim examplesOutput \<noteq> []
                           then result\<lparr>example := Some examplesOutput\<rparr> else result)))
          else
            (case sh (history w @ [which_command, installed_command (package args)])
                    (help_package_command (package args)) of
               Inl e \<Rightarrow> fetch_failed e
             | Inr overviewOutput \<Rightarrow>
                 (case sh (history w @ [which_command, installed_command (package args),
                             help_package_command (package args)])
                         (description_command (package args)) of
                    Inl e \<Rightarrow> fetch_failed e
                  | Inr descOutput \<Rightarrow>
                      (case sh (history w @ [which_command, installed_command (package args),
                                  help_package_command (package args),
                                  description_command (package args)])
                              (functions_command (package args)) of
                         Inl e \<Rightarrow> fetch_failed e
                       | Inr functionsOutput \<Rightarrow>
                           no_fields\<lparr>description := Some descOutput,
                             usage := Some (overview_usage overviewOutput functionsOutput)\<rparr>))))"
  using assms
  by (simp add: getRPackageDoc_def await_def try_catch_def logger_info_def logger_error_def
      isRInstalled_run isRPackageInstalled_run resolve_def execAsync_def settle_def
      add_examples_def split: sum.splits)

lemma getRPackageDoc_no_tool:
  assumes "isl (sh (history w) which_command)"
  shows "fst (getRPackageDoc sh args w) = Inr r_missing"
  using assms
  by (simp add: getRPackageDoc_def await_def try_catch_def logger_info_def
      isRInstalled_run resolve_def)

lemma getRPackageDoc_no_package:
  assumes "\<not> isl (sh (history w) which_command)"
    and "\<not> (case sh (history w @ [which_command]) (installed_command (package args)) of
        Inl e \<Rightarrow> False | Inr out \<Rightarrow> trim out = js ''TRUE'')"
  shows "fst (getRPackageDoc sh args w) = Inr (package_missing (package args))"
  using assms
  by (simp add: getRPackageDoc_def await_def try_catch_def logger_info_def
      isRInstalled_run isRPackageInstalled_run resolve_def)

lemma describeRPackage_returns: "\<exists>r. fst (describeRPackage sh args w) = Inr r"
proof (cases "isl (sh (history w) which_command)")
  case True
  then show ?thesis by (simp add: describeRPackage_no_tool)
next
  case tool: False
  show ?thesis
  proof (cases "case sh (history w @ [which_command]) (installed_command (package args)) of
        Inl e \<Rightarrow> False | Inr out \<Rightarrow> trim out = js ''TRUE''")
    case True
    with tool show ?thesis by (simp add: describeRPackage_fetch(1))
  next
    case False
    with tool show ?thesis by (simp add: describeRPackage_no_package)
  qed
qed

lemma getRPackageDoc_returns: "\<exists>r. fst (getRPackageDoc sh args w) = Inr r"
proof (cases "isl (sh (history w) which_command)")
  case True
  then show ?thesis by (simp add: getRPackageDoc_no_tool)
next
  case tool: False
  show ?thesis
  proof (cases "case sh (history w @ [which_command]) (installed_command (package args)) of
        Inl e \<Rightarrow> False | Inr out \<Rightarrow> trim out = js ''TRUE''")
    case True
    with tool show ?thesis by (simp add: getRPackageDoc_fetch)
  next
    case False
    with tool show ?thesis by (simp add: getRPackageDoc_no_package)
  qed
qed

section \<open>The checks before the fetch\<close>

text \<open>
  Claim C6. \<^verbatim>\<open>describeRPackage\<close> runs the check for R first. When it fails, the
  result holds the error about R alone (no \<open>suggestInstall\<close>) and no other command
  has been run. When it succeeds and the check for the package fails, the result holds
  the error \<^verbatim>\<open>Package <name> is not installed. ...\<close> and
  \<open>suggestInstall = true\<close>, no description, usage or example, and the two checks are
  the only commands run, in that order. Only when both succeed the help text is fetched,
  as the third command, and what is fetched is handed to \<^verbatim>\<open>parseRDoc\<close>, whose
  result is returned.
\<close>

theorem describeRPackage_checks:
  "(fst (isRInstalled sh w) = Inr False \<longrightarrow>
      fst (describeRPackage sh args w) =
        Inr \<lparr>description = None, usage = None, example = None,
             error = Some (js ''R is not installed or not in the PATH. Please install R and make sure it'' @
                      [SQUOTE] @ js ''s available in your PATH.''),
             searchResults = None, suggestInstall = None\<rparr> \<and>
      history (snd (describeRPackage sh args w)) = history w @ [which_command]) \<and>
   (fst (isRInstalled sh w) = Inr True \<and>
    fst (isRPackageInstalled sh (package args) (snd (isRInstalled sh w))) = Inr False \<longrightarrow>
      fst (describeRPackage sh args w) =
        Inr \<lparr>description = None, usage = None, example = None,
             error = Some (js ''Package '' @ package args @
                      js '' is not installed. Try installing it with '' @ [SQUOTE] @
                      js ''install.packages('' @ [DQUOTE] @ package args @ [DQUOTE] @ js '')'' @
                      [SQUOTE] @ js '' in R.''),
             searchResults = None, suggestInstall = Some True\<rparr> \<and>
      history (snd (describeRPackage sh args w)) =
        history w @ [which_command, installed_command (package args)]) \<and>
   (fst (isRInstalled sh w) = Inr True \<and>
    fst (isRPackageInstalled sh (package args) (snd (isRInstalled sh w))) = Inr True \<longrightarrow>
      history (snd (describeRPackage sh args w)) =
        history w @ [which_command, installed_command (package args),
          if truthy (symbol args) then help_symbol_command (the (symbol args)) (package args)
          else help_package_command (package args)] \<and>
      (\<forall>stdout.
         sh (history w @ [which_command, installed_command (package args)])
            (if truthy (symbol args) then help_symbol_command (the (symbol args)) (package args)
             else help_package_command (package args)) = Inr stdout \<longrightarrow>
         fst (describeRPackage sh args w) = parseRDoc stdout (package args) (symbol args)))"
proof (intro conjI impI allI)
  assume "fst (isRInstalled sh w) = Inr False"
  then have tool: "isl (sh (history w) which_command)"
    by (simp add: isRInstalled_result)
  show "fst (describeRPackage sh args w) =
        Inr \<lparr>description = None, usage = None, example = None,
             error = Some (js ''R is not installed or not in the PATH. Please install R and make sure it'' @
                      [SQUOTE] @ js ''s available in your PATH.''),
             searchResults = None, suggestInstall = None\<rparr>"
    using tool by (simp add: describeRPackage_no_tool r_missing_def no_fields_def)
  show "history (snd (describeRPackage sh args w)) = history w @ [which_command]"
    using tool by (simp add: describeRPackage_no_tool)
next
  assume "fst (isRInstalled sh w) = Inr True \<and>
    fst (isRPackageInstalled sh (package args) (snd (isRInstalled sh w))) = Inr False"
  then have tool: "\<not> isl (sh (history w) which_command)"
    and pkg: "\<not> (case sh (history w @ [which_command]) (installed_command (package args)) of
        Inl e \<Rightarrow> False | Inr out \<Rightarrow> trim out = js ''TRUE'')"
    by (simp_all add: isRInstalled_result isRPackageInstalled_result)
  show "fst (describeRPackage sh args w) =
        Inr \<lparr>description = None, usage = None, example = None,
             error = Some (js ''Package '' @ package args @
                      js '' is not installed. Try installing it with '' @ [SQUOTE] @
                      js ''install.packages('' @ [DQUOTE] @ package args @ [DQUOTE] @ js '')'' @
                      [SQUOTE] @ js '' in R.''),
             searchResults = None, suggestInstall = Some True\<rparr>"
    using tool pkg by (simp add: describeRPackage_no_package package_missing_def no_fields_def)
  show "history (snd (describeRPackage sh args w)) =
        history w @ [which_command, installed_command (package args)]"
    using tool pkg by (simp add: describeRPackage_no_package)
next
  assume "fst (isRInstalled sh w) = Inr True \<and>
    fst (isRPackageInstalled sh (package args) (snd (isRInstalled sh w))) = Inr True"
  then have tool: "\<not> isl (sh (history w) which_command)"
    and pkg: "case sh (history w @ [which_command]) (installed_command (package args)) of
        Inl e \<Rightarrow> False | Inr out \<Rightarrow> trim out = js ''TRUE''"
    by (simp_all add: isRInstalled_result isRPackageInstalled_result)
  show "history (snd (describeRPackage sh args w)) =
        history w @ [which_command, installed_command (package args),
          if truthy (symbol args) then help_symbol_command (the (symbol args)) (package args)
          else help_package_command (package args)]"
    using tool pkg by (simp add: describeRPackage_fetch(2))
  fix stdout
  assume "sh (history w @ [which_command, installed_command (package args)])
            (if truthy (symbol args) then help_symbol_command (the (symbol args)) (package args)
             else help_package_command (package args)) = Inr stdout"
  moreover obtain r where "parseRDoc stdout (package args) (symbol args) = Inr r"
    using parseRDoc_returns by blast
  ultimately show "fst (describeRPackage sh args w) = parseRDoc stdout (package args) (symbol args)"
    using tool pkg by (simp add: describeRPackage_fetch(1))
qed

theorem describeRPackage_checks_witness:
  "fst (isRInstalled (\<lambda>h c. if c = which_command then Inr [] else Inl (ErrorObject (js ''exit 1'')))
         \<lparr>history = [], logged = []\<rparr>) = Inr True \<and>
   fst (isRPackageInstalled
         (\<lambda>h c. if c = which_command then Inr [] else Inl (ErrorObject (js ''exit 1'')))
         (js ''nonexistentpackage123'')
         (snd (isRInstalled
                (\<lambda>h c. if c = which_command then Inr [] else Inl (ErrorObject (js ''exit 1'')))
                \<lparr>history = [], logged = []\<rparr>))) = Inr False \<and>
   fst (describeRPackage
         (\<lambda>h c. if c = which_command then Inr [] else Inl (ErrorObject (js ''exit 1'')))
         \<lparr>package = js ''nonexistentpackage123'', symbol = None, projectPath = None\<rparr>
         \<lparr>history = [], logged = []\<rparr>) =
     Inr \<lparr>description = None, usage = None, example = None,
          error = Some (js ''Package nonexistentpackage123 is not installed. Try installing it with '' @
                   [SQUOTE] @ js ''install.packages('' @ [DQUOTE] @ js ''nonexistentpackage123'' @
                   [DQUOTE] @ js '')'' @ [SQUOTE] @ js '' in R.''),
          searchResults = None, suggestInstall = Some True\<rparr>"
proof -
  let ?sh = "\<lambda>(h::jsstring list) c.
     if c = which_command then Inr [] else Inl (ErrorObject (js ''exit 1''))"
  let ?w = "\<lparr>history = [], logged = []\<rparr>"
  let ?args = "\<lparr>package = js ''nonexistentpackage123'', symbol = None, projectPath = None\<rparr>"
  have h1: "fst (isRInstalled ?sh ?w) = Inr True"
    by (simp add: isRInstalled_run)
  have h2: "fst (isRPackageInstalled ?sh (js ''nonexistentpackage123'')
               (snd (isRInstalled ?sh ?w))) = Inr False"
    by (simp add: isRInstalled_run isRPackageInstalled_run which_command_def
        installed_command_def)
  from describeRPackage_checks [of ?sh ?w ?args] h1 h2 show ?thesis
    by simp
qed

section \<open>The examples of a symbol\<close>

text \<open>
  Claim C7. For a query with a symbol, after both checks and the fetch of the help text
  have succeeded, \<^verbatim>\<open>getRPackageDoc\<close> returns the parsed help result: unchanged
  when the fetch of the examples throws or gives text that is empty after trimming, and
  with the \<open>example\<close> field set to the fetched text otherwise.
\<close>

theorem getRPackageDoc_examples:
  assumes "truthy (symbol args)"
    and "fst (isRInstalled sh w) = Inr True"
    and "fst (isRPackageInstalled sh (package args) (snd (isRInstalled sh w))) = Inr True"
    and "sh (history w @ [which_command, installed_command (package args)])
            (help_symbol_command (the (symbol args)) (package args)) = Inr helpOutput"
    and "parseRDoc helpOutput (package args) (symbol args) = Inr parsed"
  shows "fst (getRPackageDoc sh args w) =
           Inr (case sh (history w @ [which_command, installed_command (package args),
                           help_symbol_command (the (symbol args)) (package args)])
                     (examples_command (the (symbol args)) (package args)) of
                  Inl exError \<Rightarrow> parsed
                | Inr examplesOutput \<Rightarrow>
                    if trim examplesOutput = [] then parsed
                    else parsed\<lparr>example := Some examplesOutput\<rparr>)"
proof -
  have tool: "\<not> isl (sh (history w) which_command)"
    and pkg: "case sh (history w @ [which_command]) (installed_command (package args)) of
        Inl e \<Rightarrow> False | Inr out \<Rightarrow> trim out = js ''TRUE''"
    using assms(2,3) by (simp_all add: isRInstalled_result isRPackageInstalled_result)
  have "trim examplesOutput \<noteq> [] \<Longrightarrow> examplesOutput \<noteq> []" for examplesOutput
    by (auto simp: trim_def)
  then show ?thesis
    using tool pkg assms(1,4,5)
    by (auto simp: getRPackageDoc_fetch split: sum.splits)
qed

theorem getRPackageDoc_examples_witness:
  "fst (getRPackageDoc
         (\<lambda>h c. if c = examples_command (js ''mean'') (js ''base'')
                 then Inl (ErrorObject (js ''no examples''))
                 else if c = help_symbol_command (js ''mean'') (js ''base'')
                 then Inr (js ''mean'' @ [LF, LF] @ js ''Mean'' @ [LF] @ js ''Examples:'' @ [LF] @
                           js ''mean(1)'')
                 else Inr (js ''TRUE''))
         \<lparr>package = js ''base'', symbol = Some (js ''mean''), projectPath = None\<rparr>
         \<lparr>history = [], logged = []\<rparr>) =
     Inr \<lparr>description = Some (js ''Mean''), usage = None, example = Some (js ''mean(1)''),
          error = None, searchResults = None, suggestInstall = None\<rparr>"
proof -
  let ?sh = "\<lambda>(h::jsstring list) c.
     if c = examples_command (js ''mean'') (js ''base'')
     then Inl (ErrorObject (js ''no examples''))
     else if c = help_symbol_command (js ''mean'') (js ''base'')
     then Inr (js ''mean'' @ [LF, LF] @ js ''Mean'' @ [LF] @ js ''Examples:'' @ [LF] @
               js ''mean(1)'')
     else Inr (js ''TRUE'')"
  let ?w = "\<lparr>history = [], logged = []\<rparr>"
  let ?args = "\<lparr>package = js ''base'', symbol = Some (js ''mean''), projectPath = None\<rparr>"
  have h0: "truthy (symbol ?args)"
    by (simp add: truthy_def)
  have c1: "which_command \<noteq> examples_command (js ''mean'') (js ''base'')"
    and c2: "which_command \<noteq> help_symbol_command (js ''mean'') (js ''base'')"
    and c3: "installed_command (js ''base'') \<noteq> examples_command (js ''mean'') (js ''base'')"
    and c4: "installed_command (js ''base'') \<noteq> help_symbol_command (js ''mean'') (js ''base'')"
    and c5: "help_symbol_command (js ''mean'') (js ''base'') \<noteq>
             examples_command (js ''mean'') (js ''base'')"
    by code_simp+
  have t: "trim (js ''TRUE'') = js ''TRUE''"
    by code_simp
  have h1: "fst (isRInstalled ?sh ?w) = Inr True"
    using c1 c2 by (simp add: isRInstalled_run)
  have h2: "fst (isRPackageInstalled ?sh (package ?args) (snd (isRInstalled ?sh ?w))) = Inr True"
    using c3 c4 t by (simp add: isRInstalled_run isRPackageInstalled_run)
  have h3: "?sh (history ?w @ [which_command, installed_command (package ?args)])
              (help_symbol_command (the (symbol ?args)) (package ?args)) =
            Inr (js ''mean'' @ [LF, LF] @ js ''Mean'' @ [LF] @ js ''Examples:'' @ [LF] @
                 js ''mean(1)'')"
    using c5 by simp
  have h4: "parseRDoc (js ''mean'' @ [LF, LF] @ js ''Mean'' @ [LF] @ js ''Examples:'' @ [LF] @
                 js ''mean(1)'') (package ?args) (symbol ?args) =
            Inr \<lparr>description = Some (js ''Mean''), usage = None, example = Some (js ''mean(1)''),
                 error = None, searchResults = None, suggestInstall = None\<rparr>"
    by code_simp
  from getRPackageDoc_examples [of ?args ?sh ?w, OF h0 h1 h2 h3 h4] show ?thesis
    by simp
qed

section \<open>Failures of the fetch\<close>

text \<open>
  Claim C8. \<^verbatim>\<open>describeRPackage\<close> and \<^verbatim>\<open>getRPackageDoc\<close> always return a
  result and never throw. When both checks have succeeded and a fetch of the text throws
  (the help text for either function; for a package without symbol also the description
  or the list of functions), the result is the error
  \<^verbatim>\<open>Failed to fetch R documentation: \<close> followed by the message of what was thrown.
\<close>

theorem fetch_failure_returned:
  "(\<exists>r. fst (describeRPackage sh args w) = Inr r) \<and>
   (\<exists>r. fst (getRPackageDoc sh args w) = Inr r) \<and>
   (fst (isRInstalled sh w) = Inr True \<and>
    fst (isRPackageInstalled sh (package args) (snd (isRInstalled sh w))) = Inr True \<longrightarrow>
      (sh (history w @ [which_command, installed_command (package args)])
          (if truthy (symbol args) then help_symbol_command (the (symbol args)) (package args)
           else help_package_command (package args)) = Inl e \<longrightarrow>
         fst (describeRPackage sh args w) =
           Inr (no_fields\<lparr>error :=
                  Some (js ''Failed to fetch R documentation: '' @ errorMessage e)\<rparr>) \<and>
         fst (getRPackageDoc sh args w) =
           Inr (no_fields\<lparr>error :=
                  Some (js ''Failed to fetch R documentation: '' @ errorMessage e)\<rparr>)) \<and>
      (\<not> truthy (symbol args) \<and>
       sh (history w @ [which_command, installed_command (package args)])
          (help_package_command (package args)) = Inr overviewOutput \<and>
       sh (history w @ [which_command, installed_command (package args),
                        help_package_command (package args)])
          (description_command (package args)) = Inl e \<longrightarrow>
         fst (getRPackageDoc sh args w) =
           Inr (no_fields\<lparr>error :=
                  Some (js ''Failed to fetch R documentation: '' @ errorMessage e)\<rparr>)) \<and>
      (\<not> truthy (symbol args) \<and>
       sh (history w @ [which_command, installed_command (package args)])
          (help_package_command (package args)) = Inr overviewOutput \<and>
       sh (history w @ [which_command, installed_command (package args),
                        help_package_command (package args)])
          (description_command (package args)) = Inr descOutput \<and>
       sh (history w @ [which_command, installed_command (package args),
                        help_package_command (package args), description_command (package args)])
          (functions_command (package args)) = Inl e \<longrightarrow>
         fst (getRPackageDoc sh args w) =
           Inr (no_fields\<lparr>error :=
                  Some (js ''Failed to fetch R documentation: '' @ errorMessage e)\<rparr>)))"
proof (intro conjI impI)
  show "\<exists>r. fst (describeRPackage sh args w) = Inr r"
    by (rule describeRPackage_returns)
  show "\<exists>r. fst (getRPackageDoc sh args w) = Inr r"
    by (rule getRPackageDoc_returns)
next
  assume "fst (isRInstalled sh w) = Inr True \<and>
    fst (isRPackageInstalled sh (package args) (snd (isRInstalled sh w))) = Inr True"
  then have tool: "\<not> isl (sh (history w) which_command)"
    and pkg: "case sh (history w @ [which_command]) (installed_command (package args)) of
        Inl e \<Rightarrow> False | Inr out \<Rightarrow> trim out = js ''TRUE''"
    by (simp_all add: isRInstalled_result isRPackageInstalled_result)
  {
    assume f: "sh (history w @ [which_command, installed_command (package args)])
          (if truthy (symbol args) then help_symbol_command (the (symbol args)) (package args)
           else help_package_command (package args)) = Inl e"
    show "fst (describeRPackage sh args w) =
           Inr (no_fields\<lparr>error :=
                  Some (js ''Failed to fetch R documentation: '' @ errorMessage e)\<rparr>)"
      using tool pkg f by (simp add: describeRPackage_fetch(1) fetch_failed_def)
    show "fst (getRPackageDoc sh args w) =
           Inr (no_fields\<lparr>error :=
                  Some (js ''Failed to fetch R documentation: '' @ errorMessage e)\<rparr>)"
      using tool pkg f
      by (cases "truthy (symbol args)") (simp_all add: getRPackageDoc_fetch fetch_failed_def)
  }
  {
    assume "\<not> truthy (symbol args) \<and>
       sh (history w @ [which_command, installed_command (package args)])
          (help_package_command (package args)) = Inr overviewOutput \<and>
       sh (history w @ [which_command, installed_command (package args),
                        help_package_command (package args)])
          (description_command (package args)) = Inl e"
    then show "fst (getRPackageDoc sh args w) =
           Inr (no_fields\<lparr>error :=
                  Some (js ''Failed to fetch R documentation: '' @ errorMessage e)\<rparr>)"
      using tool pkg by (simp add: getRPackageDoc_fetch fetch_failed_def)
  }
  {
    assume "\<not> truthy (symbol args) \<and>
       sh (history w @ [which_command, installed_command (package args)])
          (help_package_command (package args)) = Inr overviewOutput \<and>
       sh (history w @ [which_command, installed_command (package args),
                        help_package_command (package args)])
          (description_command (package args)) = Inr descOutput \<and>
       sh (history w @ [which_command, installed_command (package args),
                        help_package_command (package args), description_command (package args)])
          (functions_command (package args)) = Inl e"
    then show "fst (getRPackageDoc sh args w) =
           Inr (no_fields\<lparr>error :=
                  Some (js ''Failed to fetch R documentation: '' @ errorMessage e)\<rparr>)"
      using tool pkg by (simp add: getRPackageDoc_fetch fetch_failed_def)
  }
qed

theorem fetch_failure_returned_witness:
  "fst (describeRPackage
         (\<lambda>h c. if h = [] \<or> h = [which_command] then Inr (js ''TRUE'')
                 else Inl (ErrorObject (js ''Command failed'')))
         \<lparr>package = js ''base'', symbol = None, projectPath = None\<rparr>
         \<lparr>history = [], logged = []\<rparr>) =
     Inr (no_fields\<lparr>error := Some (js ''Failed to fetch R documentation: Command failed'')\<rparr>) \<and>
   fst (getRPackageDoc
         (\<lambda>h c. if h = [] \<or> h = [which_command] then Inr (js ''TRUE'')
                 else Inl (ErrorObject (js ''Command failed'')))
         \<lparr>package = js ''base'', symbol = None, projectPath = None\<rparr>
         \<lparr>history = [], logged = []\<rparr>) =
     Inr (no_fields\<lparr>error := Some (js ''Failed to fetch R documentation: Command failed'')\<rparr>)"
proof -
  let ?sh = "\<lambda>(h::jsstring list) (c::jsstring).
     if h = [] \<or> h = [which_command] then Inr (js ''TRUE'')
     else Inl (ErrorObject (js ''Command failed''))"
  let ?w = "\<lparr>history = [], logged = []\<rparr>"
  let ?args = "\<lparr>package = js ''base'', symbol = None, projectPath = None\<rparr>"
  have t: "trim (js ''TRUE'') = js ''TRUE''"
    by code_simp
  have h1: "fst (isRInstalled ?sh ?w) = Inr True"
    by (simp add: isRInstalled_run)
  have h2: "fst (isRPackageInstalled ?sh (package ?args) (snd (isRInstalled ?sh ?w))) = Inr True"
    using t by (simp add: isRInstalled_run isRPackageInstalled_run)
  have h3: "?sh (history ?w @ [which_command, installed_command (package ?args)])
          (if truthy (symbol ?args) then help_symbol_command (the (symbol ?args)) (package ?args)
           else help_package_command (package ?args)) = Inl (ErrorObject (js ''Command failed''))"
    by simp
  from fetch_failure_returned [of ?sh ?args ?w "ErrorObject (js ''Command failed'')"] h1 h2 h3
  show ?thesis
    by simp
qed

section \<open>The argument validator accepts empty strings\<close>

lemma typeof_string: "typeof v = ''string'' \<longleftrightarrow> (\<exists>s. v = JString s)"
  by (cases v) simp_all

lemma typeof_object: "typeof v = ''object'' \<and> v \<noteq> JNull \<longleftrightarrow> (\<exists>ps. v = JObject ps)"
  by (cases v) simp_all

text \<open>
  Claim C9, as stated: in every value that \<^verbatim>\<open>isRDocArgs\<close> accepts, the package is
  a string that is not empty, and the symbol and the project path, when present, are
  strings that are not empty. The validator tests the types only: the object whose three
  fields are empty strings is accepted.
\<close>

theorem isRDocArgs_empty_strings_counterexample:
  "isRDocArgs (JObject [(js ''package'', JString []), (js ''symbol'', JString []),
                        (js ''projectPath'', JString [])]) \<and>
   property (JObject [(js ''package'', JString []), (js ''symbol'', JString []),
                      (js ''projectPath'', JString [])]) ''package'' = JString [] \<and>
   property (JObject [(js ''package'', JString []), (js ''symbol'', JString []),
                      (js ''projectPath'', JString [])]) ''symbol'' = JString [] \<and>
   property (JObject [(js ''package'', JString []), (js ''symbol'', JString []),
                      (js ''projectPath'', JString [])]) ''projectPath'' = JString []"
  by (simp add: isRDocArgs_def)

text \<open>
  Claim C9, amended: \<^verbatim>\<open>isRDocArgs\<close> accepts exactly the objects whose package is a
  string and whose symbol and project path are each undefined or a string; the strings
  may be empty.
\<close>

theorem isRDocArgs_accepts:
  "isRDocArgs args \<longleftrightarrow>
     (\<exists>ps. args = JObject ps) \<and>
     (\<exists>s. property args ''package'' = JString s) \<and>
     (property args ''symbol'' = JUndefined \<or> (\<exists>s. property args ''symbol'' = JString s)) \<and>
     (property args ''projectPath'' = JUndefined \<or>
        (\<exists>s. property args ''projectPath'' = JString s))"
proof -
  have "isRDocArgs args \<longleftrightarrow>
     (typeof args = ''object'' \<and> args \<noteq> JNull) \<and>
     typeof (property args ''package'') = ''string'' \<and>
     (typeof (property args ''symbol'') = ''string'' \<or> property args ''symbol'' = JUndefined) \<and>
     (typeof (property args ''projectPath'') = ''string'' \<or>
        property args ''projectPath'' = JUndefined)"
    unfolding isRDocArgs_def by blast
  then show ?thesis
    unfolding typeof_string typeof_object by blast
qed

theorem isRDocArgs_accepts_witness:
  "isRDocArgs (JObject [(js ''package'', JString (js ''base'')), (js ''symbol'', JString [])])"
  using isRDocArgs_accepts [of "JObject [(js ''package'', JString (js ''base'')), (js ''symbol'', JString [])]"]
  by simp

end
